theory Spec2Isabelle
  imports Complex_Main
begin

section \<open>JavaScript values\<close>

text \<open>
  The request-handling runtime of \<^verbatim>\<open>packages/hydrooj/src/service/server.ts\<close> works on
  untyped JavaScript values: raw request fields, bound arguments, response bodies.
  A number is a double; the model keeps its three special values apart and represents
  a finite double by the rational it denotes (negative zero is identified with zero,
  both are falsy). A \<^verbatim>\<open>bigint\<close> is an integer. An object is the association list of its own properties, the first
  entry for a key being the one a lookup finds; members inherited from a prototype
  (\<^verbatim>\<open>toString\<close>, \<^verbatim>\<open>constructor\<close>) are outside the model.
\<close>

datatype jsnum = NaN | PosInf | NegInf | Fin rat

datatype jsval =
    JUndefined
  | JNull
  | JBool bool
  | JNum jsnum
  | JBigint int
  | JStr string
  | JArr "jsval list"
  | JObj "(string \<times> jsval) list"

type_synonym obj = "(string \<times> jsval) list"

text \<open>ToBoolean: what \<^verbatim>\<open>!v\<close>, \<^verbatim>\<open>a && b\<close>, \<^verbatim>\<open>a || b\<close> and \<^verbatim>\<open>if (v)\<close> test.\<close>

fun truthy :: "jsval \<Rightarrow> bool" where
  "truthy JUndefined = False"
| "truthy JNull = False"
| "truthy (JBool b) = b"
| "truthy (JNum NaN) = False"
| "truthy (JNum (Fin q)) = (q \<noteq> 0)"
| "truthy (JNum PosInf) = True"
| "truthy (JNum NegInf) = True"
| "truthy (JBigint n) = (n \<noteq> 0)"
| "truthy (JStr s) = (s \<noteq> [])"
| "truthy (JArr xs) = True"
| "truthy (JObj kvs) = True"

definition js_and :: "jsval \<Rightarrow> jsval \<Rightarrow> jsval" where
  "js_and a b = (if truthy a then b else a)"

definition js_or :: "jsval \<Rightarrow> jsval \<Rightarrow> jsval" where
  "js_or a b = (if truthy a then a else b)"

fun typeof :: "jsval \<Rightarrow> string" where
  "typeof JUndefined = ''undefined''"
| "typeof JNull = ''object''"
| "typeof (JBool b) = ''boolean''"
| "typeof (JNum n) = ''number''"
| "typeof (JBigint n) = ''bigint''"
| "typeof (JStr s) = ''string''"
| "typeof (JArr xs) = ''object''"
| "typeof (JObj kvs) = ''object''"

text \<open>\<^verbatim>\<open>o[k]\<close> on an object: the property's value, \<^verbatim>\<open>undefined\<close> when there is none.\<close>

definition lookup :: "obj \<Rightarrow> string \<Rightarrow> jsval" where
  "lookup kvs k = (case map_of kvs k of None \<Rightarrow> JUndefined | Some v \<Rightarrow> v)"

section \<open>The built-in \<^verbatim>\<open>parseFloat\<close>\<close>

text \<open>
  \<^verbatim>\<open>parseFloat(v)\<close> converts its argument to a string, skips leading white space
  (the ASCII white space characters; a string is a list of bytes here) and
  reads the longest prefix that is a decimal literal: an optional sign, then
  \<^verbatim>\<open>Infinity\<close>, or digits with an optional fraction, or a fraction alone, then an
  optional exponent (which counts only when it has digits). No such prefix gives
  \<^verbatim>\<open>NaN\<close>. The literal's value is rounded to a double: from
  \<open>2^1024 - 2^970\<close> on it is infinite, up to \<open>2^-1075\<close> it is zero; in between the
  model keeps the literal's exact value.
\<close>

definition is_digit :: "char \<Rightarrow> bool" where
  "is_digit c = (48 \<le> (of_char c :: nat) \<and> (of_char c :: nat) \<le> 57)"

definition is_space :: "char \<Rightarrow> bool" where
  "is_space c = (c \<in> {CHR '' '', CHR 0x09, CHR 0x0A, CHR 0x0B, CHR 0x0C, CHR 0x0D})"

definition digits_val :: "string \<Rightarrow> nat" where
  "digits_val ds = foldl (\<lambda>a c. 10 * a + (of_char c - 48)) 0 ds"

definition pow10 :: "int \<Rightarrow> rat" where
  "pow10 k = (if 0 \<le> k then 10 ^ nat k else 1 / 10 ^ nat (- k))"

definition round_double :: "rat \<Rightarrow> jsnum" where
  "round_double q =
     (if 2 ^ 1024 - 2 ^ 970 \<le> q then PosInf
      else if q \<le> - (2 ^ 1024 - 2 ^ 970) then NegInf
      else if \<bar>q\<bar> \<le> 1 / 2 ^ 1075 then Fin 0
      else Fin q)"

text \<open>The exponent part of a literal: its value and the rest, 0 when it has no digits.\<close>

definition exponent_part :: "string \<Rightarrow> int" where
  "exponent_part s =
     (case s of
        [] \<Rightarrow> 0
      | c # r \<Rightarrow>
          if c = CHR ''e'' \<or> c = CHR ''E'' then
            (case r of
               [] \<Rightarrow> 0
             | d # r' \<Rightarrow>
                 if d = CHR ''-'' then
                   (if takeWhile is_digit r' = [] then 0
                    else - int (digits_val (takeWhile is_digit r')))
                 else if d = CHR ''+'' then int (digits_val (takeWhile is_digit r'))
                 else int (digits_val (takeWhile is_digit r)))
          else 0)"

definition unsigned_literal :: "string \<Rightarrow> rat option" where
  "unsigned_literal s =
     (let ip = takeWhile is_digit s;
          r1 = dropWhile is_digit s;
          dot = (r1 \<noteq> [] \<and> hd r1 = CHR ''.'');
          fp = (if dot then takeWhile is_digit (tl r1) else []);
          r2 = (if dot then dropWhile is_digit (tl r1) else r1)
      in if ip = [] \<and> fp = [] then None
         else Some (rat_of_nat (digits_val (ip @ fp))
                      * pow10 (exponent_part r2 - int (length fp))))"

definition parse_literal :: "string \<Rightarrow> jsnum" where
  "parse_literal s =
     (let neg = (s \<noteq> [] \<and> hd s = CHR ''-'');
          u = (if s \<noteq> [] \<and> (hd s = CHR ''-'' \<or> hd s = CHR ''+'') then tl s else s)
      in if take 8 u = ''Infinity'' then (if neg then NegInf else PosInf)
         else (case unsigned_literal u of
                 None \<Rightarrow> NaN
               | Some q \<Rightarrow> round_double (if neg then - q else q)))"

text \<open>
  On a value that is not a string, \<^verbatim>\<open>parseFloat\<close> reads the value's string form: a
  number reads back as itself, an array as its elements joined by commas (so as its
  first element, \<^verbatim>\<open>null\<close> and \<^verbatim>\<open>undefined\<close> elements being empty), and
  \<^verbatim>\<open>undefined\<close>, \<^verbatim>\<open>null\<close>, \<^verbatim>\<open>true\<close>, \<^verbatim>\<open>[object Object]\<close> hold no literal.
\<close>

fun parseFloat :: "jsval \<Rightarrow> jsnum" where
  "parseFloat (JStr s) = parse_literal (dropWhile is_space s)"
| "parseFloat (JNum n) = n"
| "parseFloat (JBigint n) = round_double (of_int n)"
| "parseFloat (JArr (JStr s # xs)) = parse_literal (dropWhile is_space s)"
| "parseFloat (JArr (JNum n # xs)) = n"
| "parseFloat (JArr (JBigint n # xs)) = round_double (of_int n)"
| "parseFloat (JArr (JArr ys # xs)) = parseFloat (JArr ys)"
| "parseFloat (JArr xs) = NaN"
| "parseFloat v = NaN"

section \<open>The type registry\<close>

text \<open>
  \<^verbatim>\<open>type Converter = (value: any) => any\<close> and
  \<^verbatim>\<open>type Validator = (value: any) => boolean\<close>. Both are arbitrary functions, so either
  may throw; a validator's result is tested for truthiness by its caller.
\<close>

datatype errclass =
    ValidationError
  | PermissionError
  | PrivilegeError
  | InvalidOperationError
  | MethodNotAllowedError
  | NotFoundError
  | UserNotFoundError
  | BlacklistedError
  | CsrfTokenError
  | TypeError
  | OtherError string

text \<open>
  A thrown value: \<^verbatim>\<open>new C(...args)\<close> for an error class \<open>C\<close> of
  \<^verbatim>\<open>../error\<close>, or a runtime \<^verbatim>\<open>TypeError\<close>, or anything a handler's own code throws
  (\<open>OtherError\<close> with its class name).
\<close>

datatype error = Error errclass "jsval list"

type_synonym converter = "jsval \<Rightarrow> error + jsval"
type_synonym validator = "jsval \<Rightarrow> error + jsval"

text \<open>
  \<^verbatim>\<open>Float: [(v) => parseFloat(v), (v) => { const t = parseFloat(v);
     return t && !Number.isNaN(t) && Number.isFinite(t); }]\<close>
\<close>

definition isNaN :: "jsnum \<Rightarrow> bool" where
  "isNaN t = (t = NaN)"

definition isFinite :: "jsnum \<Rightarrow> bool" where
  "isFinite t = (case t of Fin q \<Rightarrow> True | _ \<Rightarrow> False)"

definition Float_convert :: converter where
  "Float_convert v = Inr (JNum (parseFloat v))"

definition Float_validate :: validator where
  "Float_validate v =
     (let t = parseFloat v
      in Inr (js_and (JNum t) (js_and (JBool (\<not> isNaN t)) (JBool (isFinite t)))))"

text \<open>
  \<^verbatim>\<open>Array: [(v) => { if (v instanceof Array) return v; return [v] || []; }, null]\<close>
\<close>

definition Array_convert :: converter where
  "Array_convert v =
     (case v of
        JArr xs \<Rightarrow> Inr (JArr xs)
      | _ \<Rightarrow> Inr (js_or (JArr [v]) (JArr [])))"

text \<open>\<^verbatim>\<open>Boolean: [(v) => !!v, null, true]\<close>\<close>

definition Boolean_convert :: converter where
  "Boolean_convert v = Inr (JBool (truthy v))"


section \<open>Parameter descriptors\<close>

text \<open>
  \<^verbatim>\<open>interface ParamOption { name: string, source: 'all' | 'get' | 'post' | 'route',
     isOptional?: boolean, convert?: Converter, validate?: Validator }\<close>.
  An absent \<^verbatim>\<open>isOptional\<close> is \<open>False\<close> (the code only tests it for truthiness); an
  absent or \<^verbatim>\<open>null\<close> converter or validator is \<open>None\<close>.
\<close>

datatype source = SrcAll | SrcGet | SrcPost | SrcRoute

record ParamOption =
  name :: string
  source :: source
  isOptional :: bool
  convert :: "converter option"
  validate :: "validator option"

text \<open>
  An element of the rest arguments of \<^verbatim>\<open>_buildParam\<close>: a \<^verbatim>\<open>Type\<close> tuple
  \<^verbatim>\<open>[Converter, Validator, boolean?]\<close>, a boolean, a function, \<^verbatim>\<open>null\<close> or
  \<^verbatim>\<open>undefined\<close>.
\<close>

datatype buildarg =
    ArgType "converter option" "validator option" "bool option"
  | ArgBool bool
  | ArgFun "jsval \<Rightarrow> error + jsval"
  | ArgNull
  | ArgUndefined

text \<open>
  One round of the \<^verbatim>\<open>while (cursor < args.length)\<close> loop of \<^verbatim>\<open>_buildParam\<close>, on the
  descriptor \<open>v\<close> and the flag \<^verbatim>\<open>isValidate\<close>.
\<close>

fun buildParam_step :: "buildarg \<Rightarrow> ParamOption \<times> bool \<Rightarrow> ParamOption \<times> bool" where
  "buildParam_step (ArgType c vd opt) (v, isValidate) =
     (let v1 = (case c of Some f \<Rightarrow> v\<lparr>convert := Some f\<rparr> | None \<Rightarrow> v);
          v2 = (case vd of Some f \<Rightarrow> v1\<lparr>validate := Some f\<rparr> | None \<Rightarrow> v1);
          v3 = (if opt = Some True then v2\<lparr>isOptional := True\<rparr> else v2)
      in (v3, isValidate))"
| "buildParam_step (ArgBool b) (v, isValidate) = (v\<lparr>isOptional := b\<rparr>, isValidate)"
| "buildParam_step (ArgFun f) (v, isValidate) =
     (if isValidate then (v\<lparr>validate := Some f\<rparr>, False) else (v\<lparr>convert := Some f\<rparr>, isValidate))"
| "buildParam_step ArgNull (v, isValidate) =
     (if isValidate then (v, False) else (v\<lparr>convert := None\<rparr>, isValidate))"
| "buildParam_step ArgUndefined (v, isValidate) =
     (if isValidate then (v\<lparr>validate := None\<rparr>, False) else (v\<lparr>convert := None\<rparr>, isValidate))"

definition buildParam :: "string \<Rightarrow> source \<Rightarrow> buildarg list \<Rightarrow> ParamOption" where
  "buildParam nm src as =
     fst (fold buildParam_step as
            (\<lparr>name = nm, source = src, isOptional = False, convert = None, validate = None\<rparr>, True))"

text \<open>The types of the registry as \<^verbatim>\<open>Type\<close> tuples.\<close>

definition Types_Float :: buildarg where
  "Types_Float = ArgType (Some Float_convert) (Some Float_validate) None"

definition Types_Boolean :: buildarg where
  "Types_Boolean = ArgType (Some Boolean_convert) None (Some True)"

definition Types_Array :: buildarg where
  "Types_Array = ArgType (Some Array_convert) None None"

text \<open>\<^verbatim>\<open>param(name, ...args)\<close> builds the descriptor of a field of the merged arguments.\<close>

definition param_decl :: "string \<Rightarrow> buildarg list \<Rightarrow> ParamOption" where
  "param_decl nm as = buildParam nm SrcAll as"

section \<open>The handler instance\<close>

text \<open>
  The fields of a \<^verbatim>\<open>Handler\<close> that this file's code reads or writes:
  \<^verbatim>\<open>h.args\<close>, \<^verbatim>\<open>h.domainId\<close>, the \<^verbatim>\<open>query\<close>, \<^verbatim>\<open>params\<close> and \<^verbatim>\<open>body\<close> of
  \<^verbatim>\<open>h.request\<close>, the \<^verbatim>\<open>body\<close>, \<^verbatim>\<open>status\<close> and \<^verbatim>\<open>code\<close> of \<^verbatim>\<open>h.response\<close>, and
  the descriptor table \<^verbatim>\<open>h.__param\<close>. The table is \<^verbatim>\<open>__param[className][funcName]\<close>
  in the source, a map on pairs here. Everything else a handler holds (session, user,
  domain, the fields of a subclass) is \<open>others\<close>.
\<close>

type_synonym param_table = "string \<times> string \<Rightarrow> ParamOption list option"

record 'u Handler =
  args :: obj
  domainId :: jsval
  request_query :: obj
  request_params :: obj
  request_body :: obj
  response_body :: jsval
  response_status :: jsval
  response_code :: jsval
  param :: param_table
  others :: 'u

text \<open>
  A method of a handler, called with its list of actual arguments: it may change the
  handler and may throw. What it changed before throwing stays changed.
\<close>

type_synonym 'u meth = "jsval list \<Rightarrow> 'u Handler \<Rightarrow> error option \<times> 'u Handler"

section \<open>The descriptor builder and the binding wrapper\<close>

text \<open>
  The synthetic first entry \<^verbatim>\<open>{ name: 'domainId', type: 'string', source: 'route' }\<close>
  (its \<^verbatim>\<open>type\<close> property is never read).
\<close>

definition domainId_desc :: ParamOption where
  "domainId_desc =
     \<lparr>name = ''domainId'', source = SrcRoute, isOptional = False, convert = None, validate = None\<rparr>"

text \<open>\<^verbatim>\<open>xs.splice(1, 0, v)\<close>: insert \<open>v\<close> at index 1, or at the end of a shorter list.\<close>

fun splice1 :: "'a \<Rightarrow> 'a list \<Rightarrow> 'a list" where
  "splice1 v [] = [v]"
| "splice1 v (x # xs) = x # v # xs"

text \<open>Own properties of an array: \<^verbatim>\<open>length\<close> and the canonical indices below it.\<close>

definition array_prop :: "jsval list \<Rightarrow> string \<Rightarrow> jsval" where
  "array_prop xs k =
     (if k = ''length'' then JNum (Fin (of_nat (length xs)))
      else if k \<noteq> [] \<and> list_all is_digit k \<and> (k = ''0'' \<or> hd k \<noteq> CHR ''0'')
              \<and> digits_val k < length xs
      then xs ! digits_val k
      else JUndefined)"

text \<open>
  \<^verbatim>\<open>v[k]\<close> on a value whose \<^verbatim>\<open>typeof\<close> is \<^verbatim>\<open>'object'\<close>: reading a property of
  \<^verbatim>\<open>null\<close> throws a \<^verbatim>\<open>TypeError\<close>.
\<close>

definition get_prop :: "jsval \<Rightarrow> string \<Rightarrow> error + jsval" where
  "get_prop v k =
     (case v of
        JObj kvs \<Rightarrow> Inr (lookup kvs k)
      | JArr xs \<Rightarrow> Inr (array_prop xs k)
      | _ \<Rightarrow> Inl (Error TypeError []))"

text \<open>
  The source of a descriptor: \<^verbatim>\<open>rawArgs\<close> for \<^verbatim>\<open>'all'\<close>, \<^verbatim>\<open>this.request.query\<close>
  for \<^verbatim>\<open>'get'\<close>, \<^verbatim>\<open>{ ...this.request.params, domainId: this.domainId }\<close> for
  \<^verbatim>\<open>'route'\<close>, and \<^verbatim>\<open>this.request.body\<close> otherwise.
\<close>

definition source_of :: "'u Handler \<Rightarrow> jsval \<Rightarrow> ParamOption \<Rightarrow> jsval" where
  "source_of h rawArgs item =
     (case source item of
        SrcAll \<Rightarrow> rawArgs
      | SrcGet \<Rightarrow> JObj (request_query h)
      | SrcRoute \<Rightarrow> JObj ((''domainId'', domainId h) # request_params h)
      | SrcPost \<Rightarrow> JObj (request_body h))"

text \<open>The raw value \<^verbatim>\<open>src[item.name]\<close>.\<close>

definition source_value :: "'u Handler \<Rightarrow> jsval \<Rightarrow> ParamOption \<Rightarrow> error + jsval" where
  "source_value h rawArgs item = get_prop (source_of h rawArgs item) (name item)"

text \<open>
  The binder records each call it makes of a validator or a converter, with the
  descriptor's name and the raw value passed.
\<close>

datatype call = CallValidate string jsval | CallConvert string jsval

definition apply_convert :: "ParamOption \<Rightarrow> jsval \<Rightarrow> call list \<times> (error + jsval)" where
  "apply_convert item v =
     (case convert item of
        None \<Rightarrow> ([], Inr v)
      | Some g \<Rightarrow> ([CallConvert (name item) v], g v))"

text \<open>
  The body of the loop of the wrapper \<^verbatim>\<open>validate\<close>: the calls made, and the value
  pushed onto \<^verbatim>\<open>c\<close> or the error thrown.
\<close>

definition bind_item :: "'u Handler \<Rightarrow> jsval \<Rightarrow> ParamOption \<Rightarrow> call list \<times> (error + jsval)" where
  "bind_item h rawArgs item =
     (case source_value h rawArgs item of
        Inl e \<Rightarrow> ([], Inl e)
      | Inr v \<Rightarrow>
          if \<not> isOptional item \<or> truthy v then
            if \<not> truthy v then ([], Inl (Error ValidationError [JStr (name item)]))
            else (case validate item of
                    None \<Rightarrow> apply_convert item v
                  | Some f \<Rightarrow>
                      (case f v of
                         Inl e \<Rightarrow> ([CallValidate (name item) v], Inl e)
                       | Inr r \<Rightarrow>
                           if \<not> truthy r
                           then ([CallValidate (name item) v],
                                 Inl (Error ValidationError [JStr (name item)]))
                           else (CallValidate (name item) v # fst (apply_convert item v),
                                 snd (apply_convert item v))))
          else ([], Inr JUndefined))"

text \<open>\<^verbatim>\<open>for (const item of arglist) { ... }\<close>, with the calls so far and \<^verbatim>\<open>c\<close>.\<close>

fun bind_loop ::
  "'u Handler \<Rightarrow> jsval \<Rightarrow> ParamOption list \<Rightarrow> call list \<times> jsval list
     \<Rightarrow> call list \<times> (error + jsval list)" where
  "bind_loop h rawArgs [] (calls, c) = (calls, Inr c)"
| "bind_loop h rawArgs (item # rest) (calls, c) =
     (case bind_item h rawArgs item of
        (l, Inl e) \<Rightarrow> (calls @ l, Inl e)
      | (l, Inr v) \<Rightarrow> bind_loop h rawArgs rest (calls @ l, c @ [v]))"

text \<open>
  The wrapper \<^verbatim>\<open>validate(rawArgs, ...extra)\<close> that replaces a decorated method of class
  \<open>cn\<close> named \<open>fn\<close>. Called with anything but one argument of type \<^verbatim>\<open>'object'\<close> it
  passes its arguments on; otherwise it binds the descriptors
  \<^verbatim>\<open>this.__param[cn][fn]\<close> and calls the original method with the bound list.
  Iterating a missing descriptor list throws a \<^verbatim>\<open>TypeError\<close>.
\<close>

definition validate_wrapper :: "string \<Rightarrow> string \<Rightarrow> 'u meth \<Rightarrow> 'u meth" where
  "validate_wrapper cn fn originalMethod argv h =
     (let rawArgs = (case argv of [] \<Rightarrow> JUndefined | a # _ \<Rightarrow> a);
          extra = tl argv
      in if typeof rawArgs \<noteq> ''object'' \<or> extra \<noteq> [] then originalMethod (rawArgs # extra) h
         else (case param h (cn, fn) of
                 None \<Rightarrow> (Some (Error TypeError []), h)
               | Some arglist \<Rightarrow>
                   (case snd (bind_loop h rawArgs arglist ([], [])) of
                      Inl e \<Rightarrow> (Some e, h)
                    | Inr c \<Rightarrow> originalMethod c h)))"

text \<open>
  The decorator \<^verbatim>\<open>desc\<close> returned by \<^verbatim>\<open>_descriptor(v)\<close>, applied to the method \<open>fn\<close>
  of class \<open>cn\<close>: on the descriptor table and the method's current function. The first
  application for a method seeds the list with the \<^verbatim>\<open>domainId\<close> entry and installs
  the wrapper; every application splices \<open>v\<close> in at index 1.
\<close>

definition descriptor ::
  "ParamOption \<Rightarrow> string \<Rightarrow> string \<Rightarrow> param_table \<times> 'u meth \<Rightarrow> param_table \<times> 'u meth" where
  "descriptor v cn fn = (\<lambda>(tbl, m).
     (case tbl (cn, fn) of
        None \<Rightarrow> (tbl((cn, fn) \<mapsto> splice1 v [domainId_desc]), validate_wrapper cn fn m)
      | Some l \<Rightarrow> (tbl((cn, fn) \<mapsto> splice1 v l), m)))"

text \<open>Decorators applied one after the other, the first of the list first.\<close>

definition decorate ::
  "ParamOption list \<Rightarrow> string \<Rightarrow> string \<Rightarrow> param_table \<times> 'u meth \<Rightarrow> param_table \<times> 'u meth" where
  "decorate vs cn fn = fold (\<lambda>v. descriptor v cn fn) vs"

section \<open>The request dispatcher\<close>

text \<open>
  What the code reads from the language and from the error classes of \<^verbatim>\<open>../error\<close>,
  which are not part of this file: the string form of a value that is not a string
  (a template literal applies it), \<^verbatim>\<open>JSON.parse\<close>, and the properties
  \<^verbatim>\<open>message\<close>, \<^verbatim>\<open>stack\<close>, \<^verbatim>\<open>name\<close>, \<^verbatim>\<open>params\<close> and the \<^verbatim>\<open>toString()\<close> of a
  thrown error. They are parameters of the model.
\<close>

record runtime =
  ToString :: "jsval \<Rightarrow> string"
  JSON_parse :: "string \<Rightarrow> error + jsval"
  err_message :: "error \<Rightarrow> string"
  err_stack :: "error \<Rightarrow> string"
  err_name :: "error \<Rightarrow> string"
  err_params :: "error \<Rightarrow> jsval"
  err_toString :: "error \<Rightarrow> string"

text \<open>\<^verbatim>\<open>`${v}`\<close>: a string is itself.\<close>

definition template :: "runtime \<Rightarrow> jsval \<Rightarrow> string" where
  "template rt v = (case v of JStr s \<Rightarrow> s | _ \<Rightarrow> ToString rt v)"

definition is_lower :: "char \<Rightarrow> bool" where
  "is_lower c = (97 \<le> (of_char c :: nat) \<and> (of_char c :: nat) \<le> 122)"

definition toUpperCase :: "char \<Rightarrow> char" where
  "toUpperCase c = (if is_lower c then char_of ((of_char c :: nat) - 32) else c)"

definition is_upper :: "char \<Rightarrow> bool" where
  "is_upper c = (65 \<le> (of_char c :: nat) \<and> (of_char c :: nat) \<le> 90)"

definition toLowerCase :: "char \<Rightarrow> char" where
  "toLowerCase c = (if is_upper c then char_of ((of_char c :: nat) + 32) else c)"

text \<open>
  \<^verbatim>\<open>s.replace(/_([a-z])/gm, (s) => s[1].toUpperCase())\<close>: from left to right, every
  underscore that a lower-case letter follows is dropped and the letter is upper-cased.
\<close>

fun camelCase :: "string \<Rightarrow> string" where
  "camelCase [] = []"
| "camelCase [c] = [c]"
| "camelCase (c # d # r) =
     (if c = CHR ''_'' \<and> is_lower d then toUpperCase d # camelCase r
      else c # camelCase (d # r))"

text \<open>
  The dispatchers are instrumented: every call of a handler method, of the guard and
  of the error recovery, and every frame written to or close of a socket, is appended
  to a trace. A run is the handler with the trace so far; an action may throw.
\<close>

datatype event =
    Call string "jsval list"
  | CallChecker
  | CallOnerror error
  | Write jsval
  | Close string string
  | Uncaught error

text \<open>An event without the arguments of the call.\<close>

fun erase_args :: "event \<Rightarrow> event" where
  "erase_args (Call nm argv) = Call nm []"
| "erase_args ev = ev"

type_synonym 's action = "'s \<times> event list \<Rightarrow> error option \<times> ('s \<times> event list)"

definition invoke :: "event \<Rightarrow> ('s \<Rightarrow> error option \<times> 's) \<Rightarrow> 's action" where
  "invoke ev f = (\<lambda>(h, tr). case f h of (r, h') \<Rightarrow> (r, (h', tr @ [ev])))"

definition skip :: "'s action" where
  "skip run = (None, run)"

definition throw :: "error \<Rightarrow> 's action" where
  "throw e run = (Some e, run)"

text \<open>One statement after the other: a throw leaves out what follows.\<close>

definition seq :: "'s action \<Rightarrow> 's action \<Rightarrow> 's action" where
  "seq f g run = (case f run of (Some e, run') \<Rightarrow> (Some e, run') | (None, run') \<Rightarrow> g run')"

text \<open>
  What the dispatcher reads of the Koa context: \<^verbatim>\<open>ctx.method\<close>, \<^verbatim>\<open>ctx.params\<close>,
  \<^verbatim>\<open>ctx.query\<close> and \<^verbatim>\<open>ctx.request.body\<close>.
\<close>

record Context =
  ctx_method :: string
  ctx_params :: obj
  ctx_query :: obj
  ctx_request_body :: obj

text \<open>
  The constructor of \<^verbatim>\<open>Handler\<close>, as far as the fields of the model go: the request
  views are the context's, the response starts as \<^verbatim>\<open>{ body: {}, status: null, ... }\<close>.
\<close>

definition new_Handler :: "Context \<Rightarrow> param_table \<Rightarrow> 'u \<Rightarrow> 'u Handler" where
  "new_Handler ctx tbl u =
     \<lparr>args = [], domainId = JUndefined,
      request_query = ctx_query ctx, request_params = ctx_params ctx,
      request_body = ctx_request_body ctx,
      response_body = JObj [], response_status = JNull, response_code = JUndefined,
      param = tbl, others = u\<rparr>"

text \<open>
  A handler class, as the dispatcher sees its instances: \<^verbatim>\<open>h.init\<close>, \<^verbatim>\<open>h.onerror\<close>,
  and \<^verbatim>\<open>h[name]\<close> for any other name, a function or \<^verbatim>\<open>undefined\<close>. The members are
  those of the class: a request does not change them.
\<close>

record 'u HandlerClass =
  init :: "'u meth"
  onerror :: "error \<Rightarrow> 'u Handler \<Rightarrow> error option \<times> 'u Handler"
  member :: "string \<Rightarrow> 'u meth option"

text \<open>
  \<^verbatim>\<open>if (h[nm]) await h[nm](args)\<close>. The argument is the object \<^verbatim>\<open>args\<close>, which is also
  \<^verbatim>\<open>h.args\<close>: a method sees what earlier methods stored in it.
\<close>

definition call_if_defined :: "'u HandlerClass \<Rightarrow> string \<Rightarrow> 'u Handler action" where
  "call_if_defined cls nm = (\<lambda>(h, tr).
     case member cls nm of
       None \<Rightarrow> skip (h, tr)
     | Some f \<Rightarrow> invoke (Call nm [JObj (args h)]) (f [JObj (args h)]) (h, tr))"

text \<open>\<^verbatim>\<open>await h[nm](args)\<close>: calling what is not a function throws a \<^verbatim>\<open>TypeError\<close>.\<close>

definition call_member :: "'u HandlerClass \<Rightarrow> string \<Rightarrow> 'u Handler action" where
  "call_member cls nm = (\<lambda>(h, tr).
     case member cls nm of
       None \<Rightarrow> throw (Error TypeError []) (h, tr)
     | Some f \<Rightarrow> invoke (Call nm [JObj (args h)]) (f [JObj (args h)]) (h, tr))"

text \<open>
  \<^verbatim>\<open>let operation: string; if (method === 'post' && ctx.request.body.operation)
     operation = `_${ctx.request.body.operation}`.replace(...)\<close>; \<open>None\<close> is
  \<^verbatim>\<open>undefined\<close>.
\<close>

definition operation_of :: "runtime \<Rightarrow> Context \<Rightarrow> string \<Rightarrow> string option" where
  "operation_of rt ctx meth =
     (if meth = ''post'' \<and> truthy (lookup (ctx_request_body ctx) ''operation'')
      then Some (camelCase (CHR ''_'' # template rt (lookup (ctx_request_body ctx) ''operation'')))
      else None)"

text \<open>
  The operation when \<^verbatim>\<open>if (operation)\<close> holds, that is when it is defined and not the
  empty string.
\<close>

definition truthy_operation :: "string option \<Rightarrow> string option" where
  "truthy_operation operation =
     (case operation of None \<Rightarrow> None | Some op \<Rightarrow> if op \<noteq> [] then Some op else None)"

text \<open>Method resolution, lines 646 to 656.\<close>

definition resolve :: "'u HandlerClass \<Rightarrow> string \<Rightarrow> string option \<Rightarrow> 'u Handler action" where
  "resolve cls meth operation =
     (if meth = ''post'' then
        (case truthy_operation operation of
           Some op \<Rightarrow>
             if member cls (''post'' @ op) = None
             then throw (Error InvalidOperationError [JStr op])
             else skip
         | None \<Rightarrow>
             if member cls ''post'' = None
             then throw (Error MethodNotAllowedError [JStr meth])
             else skip)
      else if member cls meth = None \<and> member cls ''all'' = None
      then throw (Error MethodNotAllowedError [JStr meth])
      else skip)"

text \<open>The body of the \<^verbatim>\<open>try\<close> block of \<^verbatim>\<open>handle\<close>, from \<^verbatim>\<open>h.init\<close> on.\<close>

definition handle_try ::
  "'u HandlerClass \<Rightarrow> ('u Handler \<Rightarrow> error option \<times> 'u Handler) option \<Rightarrow> string
     \<Rightarrow> string option \<Rightarrow> 'u Handler action" where
  "handle_try cls checker meth operation =
     seq (\<lambda>(h, tr). invoke (Call ''init'' [JObj (args h)]) (init cls [JObj (args h)]) (h, tr))
    (seq (case checker of None \<Rightarrow> skip | Some chk \<Rightarrow> invoke CallChecker chk)
    (seq (resolve cls meth operation)
    (seq (call_if_defined cls ''_prepare'')
    (seq (call_if_defined cls ''prepare'')
    (seq (call_if_defined cls meth)
    (seq (case truthy_operation operation of
            Some op \<Rightarrow> call_member cls (''post'' @ op)
          | None \<Rightarrow> skip)
    (seq (call_if_defined cls ''cleanup'')
         (call_if_defined cls ''finish''))))))))"

text \<open>
  \<^verbatim>\<open>const args = { domainId: 'system', ...ctx.params, ...ctx.query, ...ctx.request.body }\<close>:
  a later spread wins, so its entries come first.
\<close>

definition merged_args :: "Context \<Rightarrow> obj" where
  "merged_args ctx =
     ctx_request_body ctx @ ctx_query ctx @ ctx_params ctx @ [(''domainId'', JStr ''system'')]"

text \<open>\<^verbatim>\<open>h.args = args; h.domainId = args.domainId;\<close>\<close>

definition start :: "Context \<Rightarrow> 'u Handler \<Rightarrow> 'u Handler" where
  "start ctx h0 = h0\<lparr>args := merged_args ctx, domainId := lookup (merged_args ctx) ''domainId''\<rparr>"

text \<open>\<^verbatim>\<open>const method = ctx.method.toLowerCase();\<close> (a method name is ASCII).\<close>

definition request_method :: "Context \<Rightarrow> string" where
  "request_method ctx = map toLowerCase (ctx_method ctx)"

text \<open>
  \<^verbatim>\<open>handle(ctx, HandlerClass, checker)\<close>, on the instance \<open>h0\<close> that
  \<^verbatim>\<open>new HandlerClass(ctx)\<close> made: the final handler and the trace. An error of the
  \<^verbatim>\<open>try\<close> block goes to \<^verbatim>\<open>h.onerror\<close>; an error of that call is caught by
  \<^verbatim>\<open>h.response.code = 500; h.response.body = `${err.message}\n${err.stack}`\<close>.
  (The request counter \<^verbatim>\<open>global.Hydro.stat.reqCount\<close> is not modelled.)
\<close>

definition handle ::
  "runtime \<Rightarrow> Context \<Rightarrow> 'u HandlerClass \<Rightarrow> ('u Handler \<Rightarrow> error option \<times> 'u Handler) option
     \<Rightarrow> 'u Handler \<Rightarrow> 'u Handler \<times> event list" where
  "handle rt ctx cls checker h0 =
     (case handle_try cls checker (request_method ctx)
             (operation_of rt ctx (request_method ctx)) (start ctx h0, []) of
        (None, run) \<Rightarrow> run
      | (Some e, (h1, tr)) \<Rightarrow>
          (case onerror cls e h1 of
             (None, h2) \<Rightarrow> (h2, tr @ [CallOnerror e])
           | (Some err, h2) \<Rightarrow>
               (h2\<lparr>response_code := JNum (Fin 500),
                   response_body := JStr (err_message rt err @ [CHR 0x0A] @ err_stack rt err)\<rparr>,
                tr @ [CallOnerror e])))"

section \<open>The authorization guard\<close>

text \<open>
  An element of \<^verbatim>\<open>permPrivChecker\<close>: a function, or any other value (a number, a
  \<^verbatim>\<open>bigint\<close>, an array, an object). \<^verbatim>\<open>typeof\<close> of a function is \<^verbatim>\<open>'function'\<close>.
\<close>

datatype 'f fragment = FragFunction 'f | FragValue jsval

text \<open>
  The variables \<^verbatim>\<open>perm\<close>, \<^verbatim>\<open>priv\<close> and \<^verbatim>\<open>checker\<close> of \<^verbatim>\<open>Checker\<close>: \<open>None\<close> is an
  unassigned \<^verbatim>\<open>perm\<close> or \<^verbatim>\<open>priv\<close>, and the initial \<^verbatim>\<open>() => { }\<close> of \<^verbatim>\<open>checker\<close>.
  Only a value whose \<^verbatim>\<open>typeof\<close> is \<^verbatim>\<open>'object'\<close> is ever assigned to \<^verbatim>\<open>checker\<close>.
\<close>

record guard =
  perm :: "jsval option"
  priv :: "jsval option"
  checker :: "jsval option"

text \<open>One round of \<^verbatim>\<open>for (const item of permPrivChecker)\<close>.\<close>

fun Checker_step :: "'f fragment \<Rightarrow> guard \<Rightarrow> error + guard" where
  "Checker_step (FragFunction f) g = Inr g"
| "Checker_step (FragValue v) g =
     (if typeof v = ''object'' then
        (case get_prop v ''call'' of
           Inl e \<Rightarrow> Inl e
         | Inr c \<Rightarrow>
             if typeof c \<noteq> ''undefined'' then Inr (g\<lparr>checker := Some v\<rparr>)
             else (case get_prop v ''0'' of
                     Inl e \<Rightarrow> Inl e
                   | Inr z \<Rightarrow>
                       if typeof z = ''number'' then Inr (g\<lparr>priv := Some v\<rparr>)
                       else if typeof z = ''bigint'' then Inr (g\<lparr>perm := Some v\<rparr>)
                       else Inr g))
      else if typeof v = ''number'' then Inr (g\<lparr>priv := Some v\<rparr>)
      else if typeof v = ''bigint'' then Inr (g\<lparr>perm := Some v\<rparr>)
      else Inr g)"

fun Checker_loop :: "'f fragment list \<Rightarrow> guard \<Rightarrow> error + guard" where
  "Checker_loop [] g = Inr g"
| "Checker_loop (item # items) g =
     (case Checker_step item g of Inl e \<Rightarrow> Inl e | Inr g' \<Rightarrow> Checker_loop items g')"

definition Checker :: "'f fragment list \<Rightarrow> error + guard" where
  "Checker permPrivChecker =
     Checker_loop permPrivChecker \<lparr>perm = None, priv = None, checker = None\<rparr>"

text \<open>
  \<^verbatim>\<open>checkPerm\<close> and \<^verbatim>\<open>checkPriv\<close>; \<^verbatim>\<open>this.user.hasPerm\<close> and \<^verbatim>\<open>this.user.hasPriv\<close>
  belong to the user model, which is not part of this file: they are parameters, on
  the handler (which holds the user) and the permission or privilege asked for.
\<close>

definition checkPerm :: "('s \<Rightarrow> jsval \<Rightarrow> bool) \<Rightarrow> jsval \<Rightarrow> 's \<Rightarrow> error option \<times> 's" where
  "checkPerm hasPerm p h = (if \<not> hasPerm h p then (Some (Error PermissionError [p]), h) else (None, h))"

definition checkPriv :: "('s \<Rightarrow> jsval \<Rightarrow> bool) \<Rightarrow> jsval \<Rightarrow> 's \<Rightarrow> error option \<times> 's" where
  "checkPriv hasPriv p h = (if \<not> hasPriv h p then (Some (Error PrivilegeError [p]), h) else (None, h))"

text \<open>
  The function \<^verbatim>\<open>check\<close> that \<^verbatim>\<open>Checker\<close> returns:
  \<^verbatim>\<open>checker(); if (perm) this.checkPerm(perm); if (priv) this.checkPriv(priv);\<close>.
  Calling a \<^verbatim>\<open>checker\<close> that was assigned throws a \<^verbatim>\<open>TypeError\<close>, the value being an
  object and not a function.
\<close>

definition check ::
  "('s \<Rightarrow> jsval \<Rightarrow> bool) \<Rightarrow> ('s \<Rightarrow> jsval \<Rightarrow> bool) \<Rightarrow> guard \<Rightarrow> 's \<Rightarrow> error option \<times> 's" where
  "check hasPerm hasPriv g h =
     (case checker g of
        Some v \<Rightarrow> (Some (Error TypeError []), h)
      | None \<Rightarrow>
          (case (case perm g of
                   Some p \<Rightarrow> if truthy p then checkPerm hasPerm p h else (None, h)
                 | None \<Rightarrow> (None, h)) of
             (Some e, h') \<Rightarrow> (Some e, h')
           | (None, h') \<Rightarrow>
               (case priv g of
                  Some p \<Rightarrow> if truthy p then checkPriv hasPriv p h' else (None, h')
                | None \<Rightarrow> (None, h'))))"

section \<open>The socket connection protocol\<close>

text \<open>
  The fields of a \<^verbatim>\<open>ConnectionHandler\<close> that \<^verbatim>\<open>Connection\<close> reads or writes:
  \<^verbatim>\<open>h.args\<close>, \<^verbatim>\<open>h.domainId\<close> and \<^verbatim>\<open>h.request.params\<close> (which the constructor parsed
  from the connection's URL); everything else is \<open>conn_others\<close>.
\<close>

record 'u ConnectionHandler =
  conn_args :: obj
  conn_domainId :: jsval
  conn_request_params :: obj
  conn_others :: 'u

type_synonym 'u conn_meth =
  "jsval list \<Rightarrow> 'u ConnectionHandler \<Rightarrow> error option \<times> 'u ConnectionHandler"

text \<open>
  A connection handler class: \<^verbatim>\<open>h.init\<close>, \<^verbatim>\<open>h.onerror\<close> (which writes to the
  connection, so it acts on the trace as well) and \<^verbatim>\<open>h[name]\<close> for the optional hooks
  \<^verbatim>\<open>_prepare\<close>, \<^verbatim>\<open>prepare\<close>, \<^verbatim>\<open>message\<close>, \<^verbatim>\<open>cleanup\<close>, \<^verbatim>\<open>finish\<close>. What a hook
  itself sends is not part of the trace: the trace holds what the dispatcher and the
  base class's \<^verbatim>\<open>onerror\<close> do.
\<close>

record 'u ConnectionClass =
  conn_init :: "'u conn_meth"
  conn_onerror :: "error \<Rightarrow> 'u ConnectionHandler action"
  conn_member :: "string \<Rightarrow> 'u conn_meth option"

text \<open>The frames: the values whose JSON text \<^verbatim>\<open>conn.write\<close> sends.\<close>

definition auth_frame :: jsval where
  "auth_frame = JObj [(''event'', JStr ''auth'')]"

definition error_frame :: "runtime \<Rightarrow> error \<Rightarrow> jsval" where
  "error_frame rt err =
     JObj [(''error'', JObj [(''name'', JStr (err_name rt err)),
                             (''params'', js_or (err_params rt err) (JArr []))])]"

text \<open>
  \<^verbatim>\<open>JSON.stringify\<close> throws a \<^verbatim>\<open>TypeError\<close> on a value that holds a \<^verbatim>\<open>bigint\<close>,
  at any depth.
\<close>

fun has_bigint :: "jsval \<Rightarrow> bool"
  and has_bigint_list :: "jsval list \<Rightarrow> bool"
  and has_bigint_props :: "(string \<times> jsval) list \<Rightarrow> bool" where
  "has_bigint (JBigint n) = True"
| "has_bigint (JArr xs) = has_bigint_list xs"
| "has_bigint (JObj kvs) = has_bigint_props kvs"
| "has_bigint JUndefined = False"
| "has_bigint JNull = False"
| "has_bigint (JBool b) = False"
| "has_bigint (JNum n) = False"
| "has_bigint (JStr s) = False"
| "has_bigint_list [] = False"
| "has_bigint_list (x # xs) = (has_bigint x \<or> has_bigint_list xs)"
| "has_bigint_props [] = False"
| "has_bigint_props (kv # kvs) = (has_bigint (snd kv) \<or> has_bigint_props kvs)"

text \<open>
  \<^verbatim>\<open>send(data) { this.conn.write(JSON.stringify(data)); }\<close>: nothing is written when
  \<^verbatim>\<open>JSON.stringify\<close> throws.
\<close>

definition send :: "jsval \<Rightarrow> 's action" where
  "send data = (\<lambda>(h, tr).
     if has_bigint data then (Some (Error TypeError []), (h, tr))
     else (None, (h, tr @ [Write data])))"

text \<open>
  \<^verbatim>\<open>close(code, reason) { this.conn.close(code.toString(), reason); }\<close>, the code given
  by its decimal string.
\<close>

definition close :: "string \<Rightarrow> string \<Rightarrow> 's action" where
  "close code reason = (\<lambda>(h, tr). (None, (h, tr @ [Close code reason])))"

text \<open>
  \<^verbatim>\<open>ConnectionHandler.onerror\<close>:
  \<^verbatim>\<open>this.send({ error: { name: err.name, params: err.params || [] } });
     this.close(1001, err.toString());\<close>. When \<^verbatim>\<open>send\<close> throws, \<^verbatim>\<open>close\<close> is not
  reached and \<^verbatim>\<open>onerror\<close> throws.
\<close>

definition ConnectionHandler_onerror :: "runtime \<Rightarrow> error \<Rightarrow> 's action" where
  "ConnectionHandler_onerror rt err =
     seq (send (error_frame rt err)) (close ''1001'' (err_toString rt err))"

definition conn_call_if_defined ::
  "'u ConnectionClass \<Rightarrow> string \<Rightarrow> 'u ConnectionHandler action" where
  "conn_call_if_defined cls nm = (\<lambda>(h, tr).
     case conn_member cls nm of
       None \<Rightarrow> skip (h, tr)
     | Some f \<Rightarrow> invoke (Call nm [JObj (conn_args h)]) (f [JObj (conn_args h)]) (h, tr))"

text \<open>
  \<^verbatim>\<open>const args = { domainId: 'system', ...h.request.params }; h.args = args;
     h.domainId = args.domainId;\<close>
\<close>

definition conn_accept :: "'u ConnectionHandler \<Rightarrow> 'u ConnectionHandler" where
  "conn_accept h0 =
     h0\<lparr>conn_args := conn_request_params h0 @ [(''domainId'', JStr ''system'')],
        conn_domainId := lookup (conn_request_params h0 @ [(''domainId'', JStr ''system'')])
                           ''domainId''\<rparr>"

text \<open>
  \<^verbatim>\<open>args.cookie = cookie\<close>, with the first data frame: \<^verbatim>\<open>h.args\<close> is the same object.
\<close>

definition conn_start :: "string \<Rightarrow> 'u ConnectionHandler \<Rightarrow> 'u ConnectionHandler" where
  "conn_start cookie h0 =
     (conn_accept h0)\<lparr>conn_args := (''cookie'', JStr cookie) # conn_args (conn_accept h0)\<rparr>"

text \<open>
  The \<^verbatim>\<open>try\<close> block after the first frame has arrived: \<^verbatim>\<open>await h.init(args);
  conn.write(JSON.stringify({ event: 'auth' })); checker.call(h);
  if (h._prepare) await h._prepare(args); if (h.prepare) await h.prepare(args);\<close>
\<close>

definition Connection_try ::
  "'u ConnectionClass \<Rightarrow> ('u ConnectionHandler \<Rightarrow> error option \<times> 'u ConnectionHandler)
     \<Rightarrow> 'u ConnectionHandler action" where
  "Connection_try cls chk =
     seq (\<lambda>(h, tr). invoke (Call ''init'' [JObj (conn_args h)])
                       (conn_init cls [JObj (conn_args h)]) (h, tr))
    (seq (\<lambda>(h, tr). (None, (h, tr @ [Write auth_frame])))
    (seq (invoke CallChecker chk)
    (seq (conn_call_if_defined cls ''_prepare'')
         (conn_call_if_defined cls ''prepare''))))"

text \<open>
  The handshake: whether the listeners for data and close were installed, and the run.
  An error goes to \<^verbatim>\<open>h.onerror\<close>, and no listener is installed; an error of
  \<^verbatim>\<open>h.onerror\<close> itself is caught by nothing and the run ends there.
\<close>

definition Connection_setup ::
  "'u ConnectionClass \<Rightarrow> ('u ConnectionHandler \<Rightarrow> error option \<times> 'u ConnectionHandler)
     \<Rightarrow> string \<Rightarrow> 'u ConnectionHandler \<Rightarrow> bool \<times> ('u ConnectionHandler \<times> event list)" where
  "Connection_setup cls chk cookie h0 =
     (case Connection_try cls chk (conn_start cookie h0, []) of
        (None, run) \<Rightarrow> (True, run)
      | (Some e, (h, tr)) \<Rightarrow> (False, snd (conn_onerror cls e (h, tr @ [CallOnerror e]))))"

text \<open>What arrives on the connection: a data frame, or the close of the transport.\<close>

datatype inbound = Data string | Hangup

text \<open>
  The listeners of an established connection, on what arrives after the handshake.
  A data frame is parsed and handed to \<^verbatim>\<open>h.message\<close>, whose result is not awaited
  (the listener exists only when the handler has a \<^verbatim>\<open>message\<close>); when
  \<^verbatim>\<open>JSON.parse\<close> throws, the exception leaves the listener and the run ends there.
  The close runs \<^verbatim>\<open>cleanup\<close> and \<^verbatim>\<open>finish\<close>, and nothing arrives after it.
\<close>

fun Connection_active ::
  "runtime \<Rightarrow> 'u ConnectionClass \<Rightarrow> inbound list \<Rightarrow> 'u ConnectionHandler \<times> event list
     \<Rightarrow> 'u ConnectionHandler \<times> event list" where
  "Connection_active rt cls [] run = run"
| "Connection_active rt cls (Data d # evs) (h, tr) =
     (case conn_member cls ''message'' of
        None \<Rightarrow> Connection_active rt cls evs (h, tr)
      | Some f \<Rightarrow>
          (case JSON_parse rt d of
             Inl e \<Rightarrow> (h, tr @ [Uncaught e])
           | Inr v \<Rightarrow>
               Connection_active rt cls evs (snd (f [v] h), tr @ [Call ''message'' [v]])))"
| "Connection_active rt cls (Hangup # evs) run =
     snd (seq (conn_call_if_defined cls ''cleanup'') (conn_call_if_defined cls ''finish'') run)"

text \<open>
  \<^verbatim>\<open>Connection\<close>, on the instance \<open>h0\<close> that \<^verbatim>\<open>new RouteConnHandler(conn)\<close> made and on
  what arrives: the dispatcher waits for one data frame, the cookie, and runs the
  handshake; what follows in the list is what arrives once the handshake is over.
  Without a first frame nothing happens.
\<close>

definition Connection ::
  "runtime \<Rightarrow> 'u ConnectionClass \<Rightarrow> ('u ConnectionHandler \<Rightarrow> error option \<times> 'u ConnectionHandler)
     \<Rightarrow> 'u ConnectionHandler \<Rightarrow> inbound list \<Rightarrow> 'u ConnectionHandler \<times> event list" where
  "Connection rt cls chk h0 arriving =
     (case arriving of
        Data cookie # later \<Rightarrow>
          (case Connection_setup cls chk cookie h0 of
             (True, run) \<Rightarrow> Connection_active rt cls later run
           | (False, run) \<Rightarrow> run)
      | _ \<Rightarrow> (conn_accept h0, []))"

section \<open>Example inputs\<close>

text \<open>
  A method that records the positional arguments it is called with, a handler of a
  request \<^verbatim>\<open>?page=2&tags=x\<close> on the domain \<^verbatim>\<open>system\<close>, and the declarations
  \<^verbatim>\<open>@param('page', Types.Float)\<close>, \<^verbatim>\<open>@param('tags', Types.Array)\<close>,
  \<^verbatim>\<open>@param('pin', Types.Boolean)\<close>.
\<close>

definition example_method :: "unit meth" where
  "example_method argv h = (None, h\<lparr>response_body := JArr argv\<rparr>)"

definition example_handler :: "param_table \<Rightarrow> unit Handler" where
  "example_handler tbl =
     \<lparr>args = [(''page'', JStr ''2''), (''tags'', JStr ''x'')],
      domainId = JStr ''system'',
      request_query = [(''page'', JStr ''2''), (''tags'', JStr ''x'')],
      request_params = [],
      request_body = [],
      response_body = JObj [],
      response_status = JNull,
      response_code = JUndefined,
      param = tbl,
      others = ()\<rparr>"

definition decl_page :: ParamOption where
  "decl_page = param_decl ''page'' [Types_Float]"

definition decl_tags :: ParamOption where
  "decl_tags = param_decl ''tags'' [Types_Array]"

definition decl_pin :: ParamOption where
  "decl_pin = param_decl ''pin'' [Types_Boolean]"

text \<open>
  A runtime, methods that succeed or throw, handler classes (one with \<^verbatim>\<open>prepare\<close>,
  \<^verbatim>\<open>post\<close>, \<^verbatim>\<open>postAddReply\<close> and \<^verbatim>\<open>finish\<close>, one with no method, one whose
  \<^verbatim>\<open>init\<close> and \<^verbatim>\<open>onerror\<close> both throw), a \<^verbatim>\<open>POST\<close> request with the operation
  \<^verbatim>\<open>add_reply\<close> and one without operation, and the guard that
  \<^verbatim>\<open>Checker([4, 8n])\<close> builds.
\<close>

definition example_runtime :: runtime where
  "example_runtime =
     \<lparr>ToString = (\<lambda>v. ''[object Object]''),
      JSON_parse = (\<lambda>s. if s = ''{}'' then Inr (JObj []) else Inl (Error (OtherError ''SyntaxError'') [])),
      err_message = (\<lambda>e. ''failed''),
      err_stack = (\<lambda>e. ''at handle''),
      err_name = (\<lambda>e. ''Error''),
      err_params = (\<lambda>e. case e of Error c a \<Rightarrow> JArr a),
      err_toString = (\<lambda>e. ''Error: failed'')\<rparr>"

definition ok_method :: "jsval list \<Rightarrow> 's \<Rightarrow> error option \<times> 's" where
  "ok_method argv h = (None, h)"

definition failing_method :: "error \<Rightarrow> jsval list \<Rightarrow> 's \<Rightarrow> error option \<times> 's" where
  "failing_method e argv h = (Some e, h)"


definition example_ctx :: Context where
  "example_ctx =
     \<lparr>ctx_method = ''POST'', ctx_params = [], ctx_query = [],
      ctx_request_body = [(''operation'', JStr ''add_reply'')]\<rparr>"

definition example_guard :: guard where
  "example_guard = \<lparr>perm = Some (JBigint 8), priv = Some (JNum (Fin 4)), checker = None\<rparr>"


definition broken_class :: "unit HandlerClass" where
  "broken_class =
     \<lparr>init = failing_method (Error (OtherError ''Error'') []),
      onerror = (\<lambda>e h. (Some (Error TypeError []), h)),
      member = Map.empty\<rparr>"





text \<open>
  A connection handler without URL parameters, a connection class with \<^verbatim>\<open>prepare\<close>
  and \<^verbatim>\<open>message\<close>, one whose \<^verbatim>\<open>init\<close> finds that a permission is missing and
  one whose \<^verbatim>\<open>init\<close> finds no user; all keep the base class's \<^verbatim>\<open>onerror\<close>.
\<close>

definition example_conn :: "unit ConnectionHandler" where
  "example_conn =
     \<lparr>conn_args = [], conn_domainId = JUndefined, conn_request_params = [], conn_others = ()\<rparr>"

definition example_conn_class :: "unit ConnectionClass" where
  "example_conn_class =
     \<lparr>conn_init = ok_method,
      conn_onerror = ConnectionHandler_onerror example_runtime,
      conn_member = [''prepare'' \<mapsto> ok_method, ''message'' \<mapsto> ok_method]\<rparr>"

definition forbidding_conn_class :: "unit ConnectionClass" where
  "forbidding_conn_class =
     \<lparr>conn_init = failing_method (Error PermissionError [JBigint 8]),
      conn_onerror = ConnectionHandler_onerror example_runtime,
      conn_member = [''prepare'' \<mapsto> ok_method, ''message'' \<mapsto> ok_method]\<rparr>"

definition rejecting_conn_class :: "unit ConnectionClass" where
  "rejecting_conn_class =
     \<lparr>conn_init = failing_method (Error UserNotFoundError [JNum (Fin 0)]),
      conn_onerror = ConnectionHandler_onerror example_runtime,
      conn_member = [''prepare'' \<mapsto> ok_method, ''message'' \<mapsto> ok_method]\<rparr>"

section \<open>Results about the type registry\<close>

lemma parseFloat_zero: "parseFloat (JStr ''0'') = Fin 0"
  by (simp add: parse_literal_def unsigned_literal_def is_digit_def is_space_def
      digits_val_def pow10_def exponent_part_def round_double_def)


text \<open>
  C4 (code defect). \<^verbatim>\<open>Types.Array\<close> returns an array unchanged and wraps any other
  value in a one-element array. The fallback \<^verbatim>\<open>|| []\<close> never applies, since an array
  is truthy: \<^verbatim>\<open>null\<close> and \<^verbatim>\<open>undefined\<close> are wrapped like any other value, they do
  not become the empty array.
\<close>

theorem Array_convert_null:
  "Array_convert JNull = Inr (JArr [JNull])
   \<and> Array_convert JUndefined = Inr (JArr [JUndefined])
   \<and> Array_convert (JArr xs) = Inr (JArr xs)
   \<and> Array_convert (JStr s) = Inr (JArr [JStr s])"
  by (simp add: Array_convert_def js_or_def)

lemma Float_validate_truthy:
  "Float_validate v = Inr r \<Longrightarrow> truthy r \<longleftrightarrow> (\<exists>q. parseFloat v = Fin q \<and> q \<noteq> 0)"
  by (cases "parseFloat v")
     (auto simp: Float_validate_def Let_def js_and_def isNaN_def isFinite_def)

lemma Float_field_zero:
  "bind_item (example_handler tbl) (JObj [(''page'', JStr ''0'')]) decl_page
     = ([CallValidate ''page'' (JStr ''0'')], Inl (Error ValidationError [JStr ''page'']))"
  by (simp add: bind_item_def source_value_def source_of_def get_prop_def lookup_def
      decl_page_def param_decl_def buildParam_def Types_Float_def Float_validate_def
      js_and_def isNaN_def isFinite_def parse_literal_def unsigned_literal_def is_digit_def
      is_space_def digits_val_def pow10_def exponent_part_def round_double_def Let_def)

text \<open>
  C8 (code defect). The validator of \<^verbatim>\<open>Types.Float\<close> returns
  \<^verbatim>\<open>t && !Number.isNaN(t) && Number.isFinite(t)\<close>, whose first operand is the parsed
  number itself: for the string \<^verbatim>\<open>"0"\<close> it returns the number 0, which is not
  \<^verbatim>\<open>true\<close> and is falsy, so the finite float 0 does not validate (and binding a
  \<^verbatim>\<open>Float\<close> field whose raw value is \<^verbatim>\<open>"0"\<close> raises \<open>ValidationError\<close>, as
  \<open>Float_field_zero\<close> shows).
\<close>

theorem Float_validate_zero:
  "Float_validate (JStr ''0'') = Inr (JNum (Fin 0))
   \<and> \<not> truthy (JNum (Fin 0))
   \<and> isFinite (parseFloat (JStr ''0''))"
  unfolding Float_validate_def parseFloat_zero
  by (simp add: Let_def js_and_def isNaN_def isFinite_def)

section \<open>Results about descriptors and binding\<close>

lemma bind_loop_append:
  "bind_loop h raw pre (l, c) = (l', Inr c') \<Longrightarrow>
   bind_loop h raw (pre @ post) (l, c) = bind_loop h raw post (l', c')"
proof (induction pre arbitrary: l c)
  case Nil
  then show ?case by simp
next
  case (Cons item pre)
  then show ?case
    by (cases "bind_item h raw item") (auto split: sum.splits)
qed

lemma bind_loop_positional:
  "bind_loop h raw items (l, c) = (l', Inr c') \<Longrightarrow>
   \<exists>vs. c' = c @ vs \<and> list_all2 (\<lambda>item v. snd (bind_item h raw item) = Inr v) items vs"
proof (induction items arbitrary: l c)
  case Nil
  then show ?case by simp
next
  case (Cons item items)
  obtain l1 r where bi: "bind_item h raw item = (l1, r)" by (cases "bind_item h raw item")
  show ?case
  proof (cases r)
    case (Inl e)
    with Cons.prems bi show ?thesis by simp
  next
    case (Inr v)
    with Cons.prems bi have "bind_loop h raw items (l @ l1, c @ [v]) = (l', Inr c')" by simp
    from Cons.IH[OF this] obtain vs where "c' = (c @ [v]) @ vs"
      and "list_all2 (\<lambda>item v. snd (bind_item h raw item) = Inr v) items vs" by blast
    with bi Inr show ?thesis by (intro exI[of _ "v # vs"]) simp
  qed
qed

lemma decorate_seeded:
  "tbl (cn, fn) = Some (d # l) \<Longrightarrow>
   decorate vs cn fn (tbl, m) = (tbl((cn, fn) \<mapsto> d # rev vs @ l), m)"
proof (induction vs arbitrary: tbl l)
  case Nil
  then show ?case by (auto simp: decorate_def)
next
  case (Cons v vs)
  have step: "descriptor v cn fn (tbl, m) = (tbl((cn, fn) \<mapsto> d # v # l), m)"
    using Cons.prems by (simp add: descriptor_def)
  have "decorate (v # vs) cn fn (tbl, m) = decorate vs cn fn (tbl((cn, fn) \<mapsto> d # v # l), m)"
    using step by (simp add: decorate_def)
  also have "\<dots> = ((tbl((cn, fn) \<mapsto> d # v # l))((cn, fn) \<mapsto> d # rev vs @ v # l), m)"
    by (rule Cons.IH) simp
  also have "\<dots> = (tbl((cn, fn) \<mapsto> d # rev (v # vs) @ l), m)"
    by simp
  finally show ?case .
qed

lemma decorate_fresh:
  "tbl (cn, fn) = None \<Longrightarrow> vs \<noteq> [] \<Longrightarrow>
   decorate vs cn fn (tbl, m) = (tbl((cn, fn) \<mapsto> domainId_desc # rev vs), validate_wrapper cn fn m)"
proof -
  assume fresh: "tbl (cn, fn) = None" and ne: "vs \<noteq> []"
  then obtain v ws where vs: "vs = v # ws" by (cases vs) auto
  have "decorate vs cn fn (tbl, m) =
        decorate ws cn fn (tbl((cn, fn) \<mapsto> [domainId_desc, v]), validate_wrapper cn fn m)"
    using fresh by (simp add: vs decorate_def descriptor_def)
  also have "\<dots> = ((tbl((cn, fn) \<mapsto> [domainId_desc, v]))((cn, fn) \<mapsto> domainId_desc # rev ws @ [v]),
                    validate_wrapper cn fn m)"
    by (rule decorate_seeded) simp
  also have "\<dots> = (tbl((cn, fn) \<mapsto> domainId_desc # rev vs), validate_wrapper cn fn m)"
    by (simp add: vs)
  finally show ?thesis .
qed

lemma bind_item_falsy:
  "source_value h raw item = Inr v \<Longrightarrow> \<not> truthy v \<Longrightarrow>
   bind_item h raw item =
     (if isOptional item then ([], Inr JUndefined)
      else ([], Inl (Error ValidationError [JStr (name item)])))"
  by (simp add: bind_item_def)

lemma bind_loop_step:
  "bind_loop h raw pre ([], []) = (calls, Inr c) \<Longrightarrow>
   bind_loop h raw (pre @ item # post) ([], []) =
     (case bind_item h raw item of
        (l, Inl e) \<Rightarrow> (calls @ l, Inl e)
      | (l, Inr v) \<Rightarrow> bind_loop h raw post (calls @ l, c @ [v]))"
  by (simp add: bind_loop_append)

lemma example_bind:
  "bind_loop (example_handler tbl) (JObj [(''page'', JStr ''2''), (''tags'', JStr ''x'')])
     [domainId_desc, decl_pin, decl_tags, decl_page] ([], [])
   = ([CallConvert ''tags'' (JStr ''x''), CallValidate ''page'' (JStr ''2''),
       CallConvert ''page'' (JStr ''2'')],
      Inr [JStr ''system'', JUndefined, JArr [JStr ''x''], JNum (Fin 2)])"
  by (simp add: bind_item_def source_value_def source_of_def get_prop_def lookup_def
      apply_convert_def example_handler_def domainId_desc_def decl_pin_def decl_tags_def
      decl_page_def param_decl_def buildParam_def Types_Float_def Types_Boolean_def
      Types_Array_def Float_validate_def Float_convert_def Array_convert_def js_or_def
      js_and_def isNaN_def isFinite_def parse_literal_def unsigned_literal_def is_digit_def
      is_space_def digits_val_def pow10_def exponent_part_def round_double_def Let_def)

text \<open>
  C1. Declarations applied in the order \<open>vs\<close> to a method that has none yet build the
  descriptor list \<open>domainId_desc # rev vs\<close>: the synthetic \<^verbatim>\<open>domainId\<close> entry first,
  then the declarations in the reverse of their order of application (for A, B, C it is
  \<open>[domainId, C, B, A]\<close>). When binding succeeds, the bound list \<open>c\<close> holds the value of
  each descriptor at that descriptor's position, and the wrapper installed on the method
  calls the original method with exactly \<open>c\<close> as its positional arguments.
\<close>

theorem descriptor_order:
  assumes fresh: "tbl (cn, fn) = None"
    and ne: "vs \<noteq> []"
    and tab: "param h = fst (decorate vs cn fn (tbl, m))"
    and bound: "bind_loop h (JObj a) (domainId_desc # rev vs) ([], []) = (calls, Inr c)"
  shows "fst (decorate vs cn fn (tbl, m)) (cn, fn) = Some (domainId_desc # rev vs)
       \<and> name domainId_desc = ''domainId'' \<and> source domainId_desc = SrcRoute
       \<and> list_all2 (\<lambda>item v. snd (bind_item h (JObj a) item) = Inr v) (domainId_desc # rev vs) c
       \<and> snd (decorate vs cn fn (tbl, m)) [JObj a] h = m c h"
proof -
  have dec: "decorate vs cn fn (tbl, m) =
             (tbl((cn, fn) \<mapsto> domainId_desc # rev vs), validate_wrapper cn fn m)"
    using fresh ne by (rule decorate_fresh)
  then have tbl': "fst (decorate vs cn fn (tbl, m)) (cn, fn) = Some (domainId_desc # rev vs)"
    by simp
  from bind_loop_positional[OF bound]
  have pos: "list_all2 (\<lambda>item v. snd (bind_item h (JObj a) item) = Inr v) (domainId_desc # rev vs) c"
    by simp
  have "param h (cn, fn) = Some (domainId_desc # rev vs)"
    using tab tbl' by simp
  then have "validate_wrapper cn fn m [JObj a] h = m c h"
    using bound by (simp add: validate_wrapper_def)
  then have "snd (decorate vs cn fn (tbl, m)) [JObj a] h = m c h"
    using dec by simp
  moreover have "name domainId_desc = ''domainId'' \<and> source domainId_desc = SrcRoute"
    by (simp add: domainId_desc_def)
  ultimately show ?thesis
    using tbl' pos by blast
qed

theorem descriptor_order_witness:
  "fst (decorate [decl_page, decl_tags, decl_pin] ''ExampleHandler'' ''get''
          (Map.empty, example_method)) (''ExampleHandler'', ''get'')
     = Some [domainId_desc, decl_pin, decl_tags, decl_page]
   \<and> snd (decorate [decl_page, decl_tags, decl_pin] ''ExampleHandler'' ''get''
            (Map.empty, example_method))
        [JObj [(''page'', JStr ''2''), (''tags'', JStr ''x'')]]
        (example_handler
           (fst (decorate [decl_page, decl_tags, decl_pin] ''ExampleHandler'' ''get''
                   (Map.empty, example_method))))
     = example_method [JStr ''system'', JUndefined, JArr [JStr ''x''], JNum (Fin 2)]
         (example_handler
            (fst (decorate [decl_page, decl_tags, decl_pin] ''ExampleHandler'' ''get''
                    (Map.empty, example_method))))"
proof -
  let ?vs = "[decl_page, decl_tags, decl_pin]"
  let ?tbl = "fst (decorate ?vs ''ExampleHandler'' ''get'' (Map.empty, example_method))"
  have f: "Map.empty (''ExampleHandler'', ''get'') = (None :: ParamOption list option)"
    by simp
  have n: "?vs \<noteq> []"
    by simp
  have b: "bind_loop (example_handler ?tbl) (JObj [(''page'', JStr ''2''), (''tags'', JStr ''x'')])
             (domainId_desc # rev ?vs) ([], [])
           = ([CallConvert ''tags'' (JStr ''x''), CallValidate ''page'' (JStr ''2''),
               CallConvert ''page'' (JStr ''2'')],
              Inr [JStr ''system'', JUndefined, JArr [JStr ''x''], JNum (Fin 2)])"
    using example_bind[of ?tbl] by simp
  have t: "param (example_handler ?tbl) = ?tbl"
    by (simp add: example_handler_def)
  from descriptor_order[OF f n t b]
  show ?thesis by simp
qed

text \<open>
  C3. Binding one descriptor after the descriptors before it have been bound to \<open>c\<close>:
  an optional descriptor with a falsy raw value contributes \<^verbatim>\<open>undefined\<close> and no call
  of its validator or converter is made; a required descriptor whose raw value is
  absent raises \<open>ValidationError\<close> with the descriptor's name, again without any call;
  a truthy value that its validator rejects raises \<open>ValidationError\<close> with the name,
  the converter not being called; otherwise the converter's result is appended, or the
  raw value when the descriptor has no converter (an error thrown by the converter
  is thrown on).
\<close>

theorem binding_semantics:
  assumes pre: "bind_loop h rawArgs pre ([], []) = (calls, Inr c)"
    and src: "source_value h rawArgs item = Inr v"
  shows "(isOptional item \<and> \<not> truthy v \<longrightarrow>
            bind_loop h rawArgs (pre @ item # post) ([], [])
              = bind_loop h rawArgs post (calls, c @ [JUndefined]))
       \<and> (\<not> isOptional item \<and> v = JUndefined \<longrightarrow>
            bind_loop h rawArgs (pre @ item # post) ([], [])
              = (calls, Inl (Error ValidationError [JStr (name item)])))
       \<and> (\<forall>f r. truthy v \<and> validate item = Some f \<and> f v = Inr r \<and> \<not> truthy r \<longrightarrow>
            bind_loop h rawArgs (pre @ item # post) ([], [])
              = (calls @ [CallValidate (name item) v],
                 Inl (Error ValidationError [JStr (name item)])))
       \<and> (truthy v \<and> (validate item = None
                        \<or> (\<exists>f r. validate item = Some f \<and> f v = Inr r \<and> truthy r)) \<longrightarrow>
            (let vcalls = (case validate item of None \<Rightarrow> [] | Some f \<Rightarrow> [CallValidate (name item) v])
             in case convert item of
                  None \<Rightarrow>
                    bind_loop h rawArgs (pre @ item # post) ([], [])
                      = bind_loop h rawArgs post (calls @ vcalls, c @ [v])
                | Some g \<Rightarrow>
                    (case g v of
                       Inr w \<Rightarrow>
                         bind_loop h rawArgs (pre @ item # post) ([], [])
                           = bind_loop h rawArgs post
                               (calls @ vcalls @ [CallConvert (name item) v], c @ [w])
                     | Inl e \<Rightarrow>
                         bind_loop h rawArgs (pre @ item # post) ([], [])
                           = (calls @ vcalls @ [CallConvert (name item) v], Inl e))))"
  using src
  by (auto simp: bind_loop_step[OF pre] bind_item_def apply_convert_def Let_def
           split: option.splits sum.splits)

lemma example_domainId:
  "bind_loop (example_handler tbl) raw [domainId_desc] ([], []) = ([], Inr [JStr ''system''])"
  by (simp add: bind_item_def source_value_def source_of_def get_prop_def lookup_def
      apply_convert_def example_handler_def domainId_desc_def)

theorem binding_semantics_witness:
  "bind_loop (example_handler Map.empty) (JObj []) [domainId_desc, decl_pin] ([], [])
     = ([], Inr [JStr ''system'', JUndefined])
   \<and> bind_loop (example_handler Map.empty) (JObj []) [domainId_desc, decl_page] ([], [])
     = ([], Inl (Error ValidationError [JStr ''page'']))
   \<and> bind_loop (example_handler Map.empty) (JObj [(''page'', JStr ''abc'')])
        [domainId_desc, decl_page] ([], [])
     = ([CallValidate ''page'' (JStr ''abc'')], Inl (Error ValidationError [JStr ''page'']))
   \<and> bind_loop (example_handler Map.empty) (JObj [(''page'', JStr ''2'')])
        [domainId_desc, decl_page] ([], [])
     = ([CallValidate ''page'' (JStr ''2''), CallConvert ''page'' (JStr ''2'')],
        Inr [JStr ''system'', JNum (Fin 2)])"
proof -
  let ?h = "example_handler Map.empty"
  note defs = source_value_def source_of_def get_prop_def lookup_def decl_pin_def
    decl_page_def param_decl_def buildParam_def Types_Float_def Types_Boolean_def
    Float_validate_def Float_convert_def js_and_def isNaN_def isFinite_def
    parse_literal_def unsigned_literal_def is_digit_def is_space_def digits_val_def
    pow10_def exponent_part_def round_double_def Let_def
  have s1: "source_value ?h (JObj []) decl_pin = Inr JUndefined"
    by (simp add: defs)
  have s2: "source_value ?h (JObj []) decl_page = Inr JUndefined"
    by (simp add: defs)
  have s3: "source_value ?h (JObj [(''page'', JStr ''abc'')]) decl_page = Inr (JStr ''abc'')"
    by (simp add: defs)
  have s4: "source_value ?h (JObj [(''page'', JStr ''2'')]) decl_page = Inr (JStr ''2'')"
    by (simp add: defs)
  have c1: "bind_loop ?h (JObj []) [domainId_desc, decl_pin] ([], [])
              = ([], Inr [JStr ''system'', JUndefined])"
    using binding_semantics[OF example_domainId s1, of "[]"] by (simp add: defs)
  have c2: "bind_loop ?h (JObj []) [domainId_desc, decl_page] ([], [])
              = ([], Inl (Error ValidationError [JStr ''page'']))"
    using binding_semantics[OF example_domainId s2, of "[]"] by (simp add: defs)
  have c3: "bind_loop ?h (JObj [(''page'', JStr ''abc'')]) [domainId_desc, decl_page] ([], [])
              = ([CallValidate ''page'' (JStr ''abc'')],
                 Inl (Error ValidationError [JStr ''page'']))"
    using binding_semantics[OF example_domainId s3, of "[]"] by (simp add: defs)
  have c4: "bind_loop ?h (JObj [(''page'', JStr ''2'')]) [domainId_desc, decl_page] ([], [])
              = ([CallValidate ''page'' (JStr ''2''), CallConvert ''page'' (JStr ''2'')],
                 Inr [JStr ''system'', JNum (Fin 2)])"
    using binding_semantics[OF example_domainId s4, of "[]"] by (simp add: defs)
  from c1 c2 c3 c4 show ?thesis by simp
qed

text \<open>
  C10. Presence is decided by truthiness. A descriptor whose raw value is present in its
  source object but falsy (the empty string, 0, \<^verbatim>\<open>false\<close>, \<^verbatim>\<open>null\<close> are falsy) is
  treated as absent: when required, binding raises \<open>ValidationError\<close> with its name, no
  validator or converter is called, and the wrapper throws that error without calling
  the method; when optional, \<^verbatim>\<open>undefined\<close> is bound in its place, the value is dropped
  and no validator or converter is called.
\<close>

theorem falsy_present_value:
  assumes tab: "param h (cn, fn) = Some (pre @ item # post)"
    and pre: "bind_loop h (JObj a) pre ([], []) = (calls, Inr c)"
    and src: "source_of h (JObj a) item = JObj kvs"
    and present: "map_of kvs (name item) = Some v"
    and falsy: "\<not> truthy v"
  shows "(\<not> isOptional item \<longrightarrow>
            bind_item h (JObj a) item = ([], Inl (Error ValidationError [JStr (name item)]))
            \<and> validate_wrapper cn fn m [JObj a] h
                = (Some (Error ValidationError [JStr (name item)]), h))
       \<and> (isOptional item \<longrightarrow>
            bind_item h (JObj a) item = ([], Inr JUndefined)
            \<and> bind_loop h (JObj a) (pre @ item # post) ([], [])
                = bind_loop h (JObj a) post (calls, c @ [JUndefined]))"
proof -
  have sv: "source_value h (JObj a) item = Inr v"
    using src present by (simp add: source_value_def get_prop_def lookup_def)
  note bi = bind_item_falsy[OF sv falsy]
  show ?thesis
    using bi tab by (simp add: bind_loop_step[OF pre] validate_wrapper_def)
qed

lemma falsy_values:
  "\<not> truthy (JStr '''') \<and> \<not> truthy (JNum (Fin 0)) \<and> \<not> truthy (JBool False) \<and> \<not> truthy JNull"
  by simp

theorem falsy_present_value_witness:
  "validate_wrapper ''ExampleHandler'' ''get'' example_method [JObj [(''page'', JStr '''')]]
     (example_handler [(''ExampleHandler'', ''get'') \<mapsto> [domainId_desc, decl_page]])
     = (Some (Error ValidationError [JStr ''page'']),
        example_handler [(''ExampleHandler'', ''get'') \<mapsto> [domainId_desc, decl_page]])
   \<and> bind_loop (example_handler [(''ExampleHandler'', ''get'') \<mapsto> [domainId_desc, decl_pin]])
        (JObj [(''pin'', JNum (Fin 0))]) [domainId_desc, decl_pin] ([], [])
     = ([], Inr [JStr ''system'', JUndefined])"
proof -
  let ?h1 = "example_handler [(''ExampleHandler'', ''get'') \<mapsto> [domainId_desc, decl_page]]"
  let ?h2 = "example_handler [(''ExampleHandler'', ''get'') \<mapsto> [domainId_desc, decl_pin]]"
  note defs = source_of_def decl_pin_def decl_page_def param_decl_def buildParam_def
    Types_Float_def Types_Boolean_def
  have t1: "param ?h1 (''ExampleHandler'', ''get'') = Some ([domainId_desc] @ decl_page # [])"
    by (simp add: example_handler_def)
  have s1: "source_of ?h1 (JObj [(''page'', JStr '''')]) decl_page = JObj [(''page'', JStr '''')]"
    by (simp add: defs)
  have p1: "map_of [(''page'', JStr '''')] (name decl_page) = Some (JStr '''')"
    by (simp add: defs)
  have f1: "\<not> truthy (JStr '''')"
    by simp
  have r1: "\<not> isOptional decl_page"
    by (simp add: defs)
  have c1: "validate_wrapper ''ExampleHandler'' ''get'' example_method
              [JObj [(''page'', JStr '''')]] ?h1
            = (Some (Error ValidationError [JStr ''page'']), ?h1)"
    using falsy_present_value[OF t1 example_domainId s1 p1 f1, of example_method] r1
    by (simp add: defs)
  have t2: "param ?h2 (''ExampleHandler'', ''get'') = Some ([domainId_desc] @ decl_pin # [])"
    by (simp add: example_handler_def)
  have s2: "source_of ?h2 (JObj [(''pin'', JNum (Fin 0))]) decl_pin = JObj [(''pin'', JNum (Fin 0))]"
    by (simp add: defs)
  have p2: "map_of [(''pin'', JNum (Fin 0))] (name decl_pin) = Some (JNum (Fin 0))"
    by (simp add: defs)
  have f2: "\<not> truthy (JNum (Fin 0))"
    by simp
  have r2: "isOptional decl_pin"
    by (simp add: defs)
  have c2: "bind_loop ?h2 (JObj [(''pin'', JNum (Fin 0))]) [domainId_desc, decl_pin] ([], [])
            = ([], Inr [JStr ''system'', JUndefined])"
    using falsy_present_value[OF t2 example_domainId s2 p2 f2, of example_method] r2
    by (simp del: bind_loop.simps(2))
  from c1 c2 show ?thesis by simp
qed

section \<open>Results about the request dispatcher\<close>


lemma seq_ok: "f run = (None, run') \<Longrightarrow> seq f g run = g run'"
  by (simp add: seq_def)

lemma seq_throw: "f run = (Some e, run') \<Longrightarrow> seq f g run = (Some e, run')"
  by (simp add: seq_def)






















lemma double_failure:
  assumes "handle_try cls chk (request_method ctx) (operation_of rt ctx (request_method ctx))
             (start ctx h0, []) = (Some e, (h1, tr1))"
    and "onerror cls e h1 = (Some err, h2)"
  shows "handle rt ctx cls chk h0 =
           (h2\<lparr>response_code := JNum (Fin 500),
               response_body := JStr (err_message rt err @ [CHR 0x0A] @ err_stack rt err)\<rparr>,
            tr1 @ [CallOnerror e])"
    and "response_status (fst (handle rt ctx cls chk h0)) = response_status h2"
  using assms by (simp_all add: handle_def)

text \<open>
  C7 (code defect). When a stage throws and \<^verbatim>\<open>onerror\<close> throws as well, \<^verbatim>\<open>onerror\<close> has
  been called once and the second error does not leave the dispatcher, but the fallback
  assigns \<^verbatim>\<open>h.response.code\<close>, a property nothing reads: \<^verbatim>\<open>h.response.status\<close> is not
  set to 500 (here it is still \<^verbatim>\<open>null\<close>); only the body holds the failure text.
\<close>

theorem error_recovery_failure:
  "snd (handle example_runtime example_ctx broken_class None
          (new_Handler example_ctx Map.empty ()))
     = [Call ''init'' [JObj (merged_args example_ctx)],
        CallOnerror (Error (OtherError ''Error'') [])]
   \<and> response_code (fst (handle example_runtime example_ctx broken_class None
          (new_Handler example_ctx Map.empty ()))) = JNum (Fin 500)
   \<and> response_status (fst (handle example_runtime example_ctx broken_class None
          (new_Handler example_ctx Map.empty ()))) = JNull
   \<and> response_body (fst (handle example_runtime example_ctx broken_class None
          (new_Handler example_ctx Map.empty ())))
       = JStr (''failed'' @ [CHR 0x0A] @ ''at handle'')"
  by (simp add: handle_def handle_try_def seq_def invoke_def broken_class_def
      failing_method_def start_def new_Handler_def example_runtime_def)

section \<open>Results about the authorization guard\<close>

text \<open>
  C6 (code defect). A function among the guard fragments is never installed:
  \<^verbatim>\<open>Checker\<close> tests \<^verbatim>\<open>typeof item === 'object'\<close> before looking for a predicate, and
  \<^verbatim>\<open>typeof\<close> of a function is \<^verbatim>\<open>'function'\<close>. The guard built from a predicate alone
  succeeds whatever the predicate would do. The one kind of fragment that is installed
  as \<^verbatim>\<open>checker\<close>, an object with a \<^verbatim>\<open>call\<close> property, is not callable, and the guard
  then throws a \<^verbatim>\<open>TypeError\<close>.
\<close>

theorem custom_predicate_ignored:
  "Checker [FragFunction f] = Inr \<lparr>perm = None, priv = None, checker = None\<rparr>
   \<and> check hasPerm hasPriv \<lparr>perm = None, priv = None, checker = None\<rparr> h = (None, h)
   \<and> Checker [FragValue (JObj [(''call'', JBool True)])]
       = Inr \<lparr>perm = None, priv = None, checker = Some (JObj [(''call'', JBool True)])\<rparr>
   \<and> check hasPerm hasPriv
        \<lparr>perm = None, priv = None, checker = Some (JObj [(''call'', JBool True)])\<rparr> h
       = (Some (Error TypeError []), h)"
  by (simp add: Checker_def check_def get_prop_def lookup_def)

lemma example_Checker:
  "Checker [FragValue (JNum (Fin 4)), FragValue (JBigint 8)] = Inr example_guard"
  by (simp add: Checker_def example_guard_def)

lemma check_perm_first:
  "checker g = None \<Longrightarrow> perm g = Some p \<Longrightarrow> truthy p \<Longrightarrow> \<not> hasPerm h p \<Longrightarrow>
   check hasPerm hasPriv g h = (Some (Error PermissionError [p]), h)"
  by (simp add: check_def checkPerm_def)

lemma check_priv_second:
  "checker g = None \<Longrightarrow> (case perm g of None \<Rightarrow> True | Some p \<Rightarrow> truthy p \<longrightarrow> hasPerm h p) \<Longrightarrow>
   priv g = Some q \<Longrightarrow> truthy q \<Longrightarrow> \<not> hasPriv h q \<Longrightarrow>
   check hasPerm hasPriv g h = (Some (Error PrivilegeError [q]), h)"
  by (auto simp: check_def checkPerm_def checkPriv_def split: option.splits)

section \<open>Results about the socket connection protocol\<close>

lemma frames_differ: "error_frame rt e \<noteq> auth_frame"
  by (simp add: error_frame_def auth_frame_def)

lemma conn_call_if_defined_new:
  "\<exists>new. snd (snd (conn_call_if_defined cls nm run)) = snd run @ new \<and> Write auth_frame \<notin> set new"
  by (cases run)
     (auto simp: conn_call_if_defined_def skip_def invoke_def split: option.splits prod.splits)

lemma closing_new:
  "\<exists>new. snd (snd (seq (conn_call_if_defined cls ''cleanup'') (conn_call_if_defined cls ''finish'') run))
           = snd run @ new \<and> Write auth_frame \<notin> set new"
proof -
  obtain r1 run1 where c: "conn_call_if_defined cls ''cleanup'' run = (r1, run1)"
    by (cases "conn_call_if_defined cls ''cleanup'' run")
  from conn_call_if_defined_new[of cls "''cleanup''" run] c
  obtain n1 where n1: "snd run1 = snd run @ n1" "Write auth_frame \<notin> set n1"
    by auto
  show ?thesis
  proof (cases r1)
    case (Some e)
    with c n1 show ?thesis by (auto simp: seq_def)
  next
    case None
    from conn_call_if_defined_new[of cls "''finish''" run1]
    obtain n2 where n2: "snd (snd (conn_call_if_defined cls ''finish'' run1)) = snd run1 @ n2"
      "Write auth_frame \<notin> set n2"
      by auto
    with c None n1 show ?thesis
      by (intro exI[of _ "n1 @ n2"]) (simp add: seq_def)
  qed
qed

lemma Connection_active_new:
  "\<exists>new. snd (Connection_active rt cls arriving run) = snd run @ new \<and> Write auth_frame \<notin> set new"
proof (induction rt cls arriving run rule: Connection_active.induct)
  case (1 rt cls run)
  then show ?case by simp
next
  case (2 rt cls d evs h tr)
  show ?case
  proof (cases "conn_member cls ''message''")
    case None
    with 2 show ?thesis by simp
  next
    case (Some f)
    show ?thesis
    proof (cases "JSON_parse rt d")
      case (Inl e)
      with Some show ?thesis by simp
    next
      case (Inr v)
      from "2.IH"(2)[OF Some Inr]
      obtain new where "snd (Connection_active rt cls evs (snd (f [v] h), tr @ [Call ''message'' [v]]))
          = (tr @ [Call ''message'' [v]]) @ new" "Write auth_frame \<notin> set new"
        by auto
      with Some Inr show ?thesis
        by (intro exI[of _ "Call ''message'' [v] # new"]) simp
    qed
  qed
next
  case (3 rt cls evs run)
  from closing_new[of cls run] show ?case
    by (simp add: split_beta)
qed

lemma Connection_active_messages:
  assumes "conn_member cls ''message'' = Some f"
    and "\<forall>d\<in>set ds. JSON_parse rt d = Inr (p d)"
  shows "snd (Connection_active rt cls (map Data ds) (h, tr)) = tr @ map (\<lambda>d. Call ''message'' [p d]) ds"
  using assms
  by (induction ds arbitrary: h tr) auto

lemma Connection_try_after_init:
  assumes "conn_init cls [JObj (conn_args h)] h = (None, h1)"
  shows "\<exists>r hh new. Connection_try cls chk (h, []) =
           (r, (hh, Call ''init'' [JObj (conn_args h)] # Write auth_frame # CallChecker # new))
         \<and> Write auth_frame \<notin> set new"
proof -
  let ?t = "[Call ''init'' [JObj (conn_args h)], Write auth_frame, CallChecker]"
  obtain r2 h2 where c: "chk h1 = (r2, h2)"
    by (cases "chk h1")
  show ?thesis
  proof (cases r2)
    case (Some e)
    with assms c have "Connection_try cls chk (h, []) = (Some e, (h2, ?t))"
      by (simp add: Connection_try_def seq_def invoke_def)
    then show ?thesis by simp
  next
    case None
    obtain r3 run3 where p1: "conn_call_if_defined cls ''_prepare'' (h2, ?t) = (r3, run3)"
      by (cases "conn_call_if_defined cls ''_prepare'' (h2, ?t)")
    from conn_call_if_defined_new[of cls "''_prepare''" "(h2, ?t)"] p1
    obtain n3 where n3: "snd run3 = ?t @ n3" "Write auth_frame \<notin> set n3"
      by auto
    show ?thesis
    proof (cases r3)
      case (Some e)
      with assms c None p1 have "Connection_try cls chk (h, []) = (Some e, run3)"
        by (simp add: Connection_try_def seq_def invoke_def)
      with n3 show ?thesis
        by (cases run3) auto
    next
      case None': None
      obtain r4 run4 where p2: "conn_call_if_defined cls ''prepare'' run3 = (r4, run4)"
        by (cases "conn_call_if_defined cls ''prepare'' run3")
      from conn_call_if_defined_new[of cls "''prepare''" run3] p2
      obtain n4 where n4: "snd run4 = snd run3 @ n4" "Write auth_frame \<notin> set n4"
        by auto
      from assms c None p1 None' p2 have "Connection_try cls chk (h, []) = (r4, run4)"
        by (simp add: Connection_try_def seq_def invoke_def)
      with n3 n4 show ?thesis
        by (cases run4) auto
    qed
  qed
qed

lemma Connection_try_trace:
  assumes "Connection_try cls chk (h, []) = (None, (h', tr))"
  shows "map erase_args tr =
           [Call ''init'' [], Write auth_frame, CallChecker]
           @ (case conn_member cls ''_prepare'' of None \<Rightarrow> [] | Some f \<Rightarrow> [Call ''_prepare'' []])
           @ (case conn_member cls ''prepare'' of None \<Rightarrow> [] | Some f \<Rightarrow> [Call ''prepare'' []])"
  using assms
  by (auto simp: Connection_try_def seq_def invoke_def conn_call_if_defined_def skip_def
      split: prod.splits option.splits)

lemma onerror_base:
  "ConnectionHandler_onerror rt e (h, tr) =
     (if has_bigint (error_frame rt e) then (Some (Error TypeError []), (h, tr))
      else (None, (h, tr @ [Write (error_frame rt e), Close ''1001'' (err_toString rt e)])))"
  by (simp add: ConnectionHandler_onerror_def seq_def send_def close_def)

text \<open>
  The handshake with the base class's \<^verbatim>\<open>onerror\<close>: the first data frame is stored as
  \<^verbatim>\<open>args.cookie\<close> and \<^verbatim>\<open>init\<close> is called with it. If \<^verbatim>\<open>init\<close> succeeds, the
  dispatcher writes the frame \<^verbatim>\<open>{event:"auth"}\<close> right after it, before the guard, the
  prepare hooks and any message, and never writes it again. If the guard and the
  prepare hooks succeed as well and the handler has a \<^verbatim>\<open>message\<close> hook, every later
  frame (that parses) is handed to \<^verbatim>\<open>message\<close>, in order. If \<^verbatim>\<open>init\<close> throws an
  error whose frame can be serialised, the connection is sent one frame
  \<^verbatim>\<open>{error:{name, params}}\<close> and is closed with code 1001, and nothing else happens,
  whatever arrives later. If the frame holds a \<^verbatim>\<open>bigint\<close>, nothing is sent and the
  connection is not closed.
\<close>

lemma socket_handshake:
  assumes base: "conn_onerror cls = ConnectionHandler_onerror rt"
  shows "lookup (conn_args (conn_start cookie h0)) ''cookie'' = JStr cookie
       \<and> (\<forall>h1. conn_init cls [JObj (conn_args (conn_start cookie h0))] (conn_start cookie h0)
                  = (None, h1) \<longrightarrow>
            (\<exists>rest. snd (Connection rt cls chk h0 (Data cookie # later))
                       = Call ''init'' [JObj (conn_args (conn_start cookie h0))]
                         # Write auth_frame # CallChecker # rest
                   \<and> Write auth_frame \<notin> set rest))
       \<and> (\<forall>h2 tr2 f p.
            Connection_try cls chk (conn_start cookie h0, []) = (None, (h2, tr2))
            \<and> conn_member cls ''message'' = Some f
            \<and> (\<forall>d\<in>set ds. JSON_parse rt d = Inr (p d)) \<longrightarrow>
            snd (Connection rt cls chk h0 (Data cookie # map Data ds))
              = tr2 @ map (\<lambda>d. Call ''message'' [p d]) ds
            \<and> map erase_args tr2 =
                [Call ''init'' [], Write auth_frame, CallChecker]
                @ (case conn_member cls ''_prepare'' of
                     None \<Rightarrow> [] | Some f \<Rightarrow> [Call ''_prepare'' []])
                @ (case conn_member cls ''prepare'' of
                     None \<Rightarrow> [] | Some f \<Rightarrow> [Call ''prepare'' []]))
       \<and> (\<forall>e h1. conn_init cls [JObj (conn_args (conn_start cookie h0))] (conn_start cookie h0)
                    = (Some e, h1) \<longrightarrow>
            snd (Connection rt cls chk h0 (Data cookie # later))
              = [Call ''init'' [JObj (conn_args (conn_start cookie h0))], CallOnerror e]
                @ (if has_bigint (error_frame rt e) then []
                   else [Write (error_frame rt e), Close ''1001'' (err_toString rt e)]))"
proof -
  let ?h = "conn_start cookie h0"
  have c1: "lookup (conn_args ?h) ''cookie'' = JStr cookie"
    by (simp add: conn_start_def lookup_def)
  have c2: "\<exists>rest. snd (Connection rt cls chk h0 (Data cookie # later))
                 = Call ''init'' [JObj (conn_args ?h)] # Write auth_frame # CallChecker # rest
             \<and> Write auth_frame \<notin> set rest"
    if ok: "conn_init cls [JObj (conn_args ?h)] ?h = (None, h1)" for h1
  proof -
    from Connection_try_after_init[OF ok, of chk]
    obtain r hh new where t: "Connection_try cls chk (?h, []) =
        (r, (hh, Call ''init'' [JObj (conn_args ?h)] # Write auth_frame # CallChecker # new))"
      and n: "Write auth_frame \<notin> set new"
      by blast
    let ?t = "Call ''init'' [JObj (conn_args ?h)] # Write auth_frame # CallChecker # new"
    show ?thesis
    proof (cases r)
      case None
      from Connection_active_new[of rt cls later "(hh, ?t)"]
      obtain new' where a: "snd (Connection_active rt cls later (hh, ?t)) = ?t @ new'"
        and n': "Write auth_frame \<notin> set new'"
        by auto
      from t None a have "snd (Connection rt cls chk h0 (Data cookie # later)) = ?t @ new'"
        by (simp add: Connection_def Connection_setup_def)
      with n n' show ?thesis
        by (intro exI[of _ "new @ new'"]) simp
    next
      case (Some e)
      let ?sent = "if has_bigint (error_frame rt e) then []
                   else [Write (error_frame rt e), Close ''1001'' (err_toString rt e)]"
      from t Some have "snd (Connection rt cls chk h0 (Data cookie # later))
          = ?t @ CallOnerror e # ?sent"
        by (simp add: Connection_def Connection_setup_def base onerror_base)
      moreover have "Write auth_frame \<notin> set (new @ CallOnerror e # ?sent)"
        using n by (simp add: frames_differ[symmetric])
      ultimately show ?thesis
        by (intro exI[of _ "new @ CallOnerror e # ?sent"]) simp
    qed
  qed
  have c3: "snd (Connection rt cls chk h0 (Data cookie # map Data ds))
              = tr2 @ map (\<lambda>d. Call ''message'' [p d]) ds
            \<and> map erase_args tr2 =
                [Call ''init'' [], Write auth_frame, CallChecker]
                @ (case conn_member cls ''_prepare'' of
                     None \<Rightarrow> [] | Some f \<Rightarrow> [Call ''_prepare'' []])
                @ (case conn_member cls ''prepare'' of
                     None \<Rightarrow> [] | Some f \<Rightarrow> [Call ''prepare'' []])"
    if a: "Connection_try cls chk (?h, []) = (None, (h2, tr2))
            \<and> conn_member cls ''message'' = Some f
            \<and> (\<forall>d\<in>set ds. JSON_parse rt d = Inr (p d))" for h2 tr2 f p
  proof -
    from a have "snd (Connection rt cls chk h0 (Data cookie # map Data ds))
        = snd (Connection_active rt cls (map Data ds) (h2, tr2))"
      by (simp add: Connection_def Connection_setup_def)
    also have "\<dots> = tr2 @ map (\<lambda>d. Call ''message'' [p d]) ds"
      using a by (intro Connection_active_messages) auto
    finally have m: "snd (Connection rt cls chk h0 (Data cookie # map Data ds))
        = tr2 @ map (\<lambda>d. Call ''message'' [p d]) ds" .
    from a have "Connection_try cls chk (?h, []) = (None, (h2, tr2))"
      by simp
    from Connection_try_trace[OF this] m show ?thesis
      by simp
  qed
  have c4: "snd (Connection rt cls chk h0 (Data cookie # later))
              = [Call ''init'' [JObj (conn_args ?h)], CallOnerror e]
                @ (if has_bigint (error_frame rt e) then []
                   else [Write (error_frame rt e), Close ''1001'' (err_toString rt e)])"
    if bad: "conn_init cls [JObj (conn_args ?h)] ?h = (Some e, h1)" for e h1
  proof -
    from bad have "Connection_try cls chk (?h, []) = (Some e, (h1, [Call ''init'' [JObj (conn_args ?h)]]))"
      by (simp add: Connection_try_def seq_def invoke_def)
    then show ?thesis
      by (simp add: Connection_def Connection_setup_def base onerror_base)
  qed
  from c1 c2 c3 c4 show ?thesis
    by blast
qed

lemma example_conn_try:
  "Connection_try example_conn_class (check (\<lambda>h p. True) (\<lambda>h p. True) example_guard)
     (conn_start ''sid=abc'' example_conn, [])
   = (None, (conn_start ''sid=abc'' example_conn,
        [Call ''init'' [JObj [(''cookie'', JStr ''sid=abc''), (''domainId'', JStr ''system'')]],
         Write auth_frame, CallChecker,
         Call ''prepare'' [JObj [(''cookie'', JStr ''sid=abc''), (''domainId'', JStr ''system'')]]]))"
  by (simp add: Connection_try_def seq_def invoke_def conn_call_if_defined_def skip_def
      example_conn_class_def ok_method_def check_def checkPerm_def checkPriv_def
      example_guard_def conn_start_def conn_accept_def example_conn_def)

lemma socket_handshake_example:
  "snd (Connection example_runtime example_conn_class
          (check (\<lambda>h p. True) (\<lambda>h p. True) example_guard) example_conn
          [Data ''sid=abc'', Data ''{}'', Data ''{}''])
     = [Call ''init'' [JObj [(''cookie'', JStr ''sid=abc''), (''domainId'', JStr ''system'')]],
        Write auth_frame, CallChecker,
        Call ''prepare'' [JObj [(''cookie'', JStr ''sid=abc''), (''domainId'', JStr ''system'')]],
        Call ''message'' [JObj []], Call ''message'' [JObj []]]
   \<and> snd (Connection example_runtime rejecting_conn_class
            (check (\<lambda>h p. True) (\<lambda>h p. True) example_guard) example_conn
            [Data ''sid=abc'', Data ''{}''])
     = [Call ''init'' [JObj [(''cookie'', JStr ''sid=abc''), (''domainId'', JStr ''system'')]],
        CallOnerror (Error UserNotFoundError [JNum (Fin 0)]),
        Write (JObj [(''error'', JObj [(''name'', JStr ''Error''),
                                       (''params'', JArr [JNum (Fin 0)])])]),
        Close ''1001'' ''Error: failed'']"
proof -
  let ?chk = "check (\<lambda>h p. True) (\<lambda>h p. True) example_guard
                :: unit ConnectionHandler \<Rightarrow> error option \<times> unit ConnectionHandler"
  let ?h = "conn_start ''sid=abc'' example_conn"
  have b1: "conn_onerror example_conn_class = ConnectionHandler_onerror example_runtime"
    by (simp add: example_conn_class_def)
  have b2: "conn_onerror rejecting_conn_class = ConnectionHandler_onerror example_runtime"
    by (simp add: rejecting_conn_class_def)
  have a: "conn_args ?h = [(''cookie'', JStr ''sid=abc''), (''domainId'', JStr ''system'')]"
    by (simp add: conn_start_def conn_accept_def example_conn_def)
  have m: "conn_member example_conn_class ''message'' = Some ok_method"
    by (simp add: example_conn_class_def)
  have p: "\<forall>d\<in>set [''{}'', ''{}'']. JSON_parse example_runtime d = Inr ((\<lambda>d. JObj []) d)"
    by (simp add: example_runtime_def)
  have c1: "snd (Connection example_runtime example_conn_class ?chk example_conn
                   (Data ''sid=abc'' # map Data [''{}'', ''{}'']))
      = [Call ''init'' [JObj [(''cookie'', JStr ''sid=abc''), (''domainId'', JStr ''system'')]],
         Write auth_frame, CallChecker,
         Call ''prepare'' [JObj [(''cookie'', JStr ''sid=abc''), (''domainId'', JStr ''system'')]]]
        @ map (\<lambda>d. Call ''message'' [JObj []]) [''{}'', ''{}'']"
    using socket_handshake[OF b1, of "''sid=abc''" example_conn ?chk "[]" "[''{}'', ''{}'']",
        THEN conjunct2, THEN conjunct2, THEN conjunct1, rule_format,
        of _ _ ok_method "\<lambda>d. JObj []"]
      example_conn_try m p
    by simp
  have i: "conn_init rejecting_conn_class [JObj (conn_args ?h)] ?h
             = (Some (Error UserNotFoundError [JNum (Fin 0)]), ?h)"
    by (simp add: rejecting_conn_class_def failing_method_def)
  have c2: "snd (Connection example_runtime rejecting_conn_class ?chk example_conn
                   (Data ''sid=abc'' # [Data ''{}'']))
      = [Call ''init'' [JObj (conn_args ?h)],
         CallOnerror (Error UserNotFoundError [JNum (Fin 0)])]
        @ (if has_bigint (error_frame example_runtime (Error UserNotFoundError [JNum (Fin 0)]))
           then []
           else [Write (error_frame example_runtime (Error UserNotFoundError [JNum (Fin 0)])),
                 Close ''1001''
                   (err_toString example_runtime (Error UserNotFoundError [JNum (Fin 0)]))])"
    using socket_handshake[OF b2, of "''sid=abc''" example_conn ?chk "[Data ''{}'']" "[]"] i
    by blast
  from c1 c2 show ?thesis
    by (simp add: a error_frame_def example_runtime_def js_or_def)
qed

text \<open>
  C9 (code defect). When the error that ends the handshake carries a \<^verbatim>\<open>bigint\<close> in its
  \<^verbatim>\<open>params\<close>, as a \<open>PermissionError\<close> does, \<^verbatim>\<open>JSON.stringify\<close> throws inside
  \<^verbatim>\<open>send\<close>: no error frame is written and \<^verbatim>\<open>close(1001, ...)\<close> is never reached. So
  it is for an \<^verbatim>\<open>init\<close> that throws \<open>PermissionError(8n)\<close>, and for a guard registered
  with the permission \<open>8n\<close> that the user lacks (after the \<^verbatim>\<open>auth\<close> frame).
\<close>

theorem socket_error_frame_bigint:
  "snd (Connection example_runtime forbidding_conn_class
          (check (\<lambda>h p. True) (\<lambda>h p. True) example_guard) example_conn
          [Data ''sid=abc'', Data ''{}''])
     = [Call ''init'' [JObj [(''cookie'', JStr ''sid=abc''), (''domainId'', JStr ''system'')]],
        CallOnerror (Error PermissionError [JBigint 8])]
   \<and> snd (Connection example_runtime example_conn_class
            (check (\<lambda>h p. False) (\<lambda>h p. True) example_guard) example_conn
            [Data ''sid=abc'', Data ''{}''])
     = [Call ''init'' [JObj [(''cookie'', JStr ''sid=abc''), (''domainId'', JStr ''system'')]],
        Write auth_frame, CallChecker,
        CallOnerror (Error PermissionError [JBigint 8])]"
  by (simp add: Connection_def Connection_setup_def Connection_try_def seq_def invoke_def
      forbidding_conn_class_def example_conn_class_def failing_method_def ok_method_def
      onerror_base error_frame_def example_runtime_def js_or_def
      check_def checkPerm_def example_guard_def
      conn_start_def conn_accept_def example_conn_def)

end
